theory Spec2Isabelle
  imports Main
begin

section \<open>Shared vocabulary\<close>

text \<open>
  Participant identifiers are the transport's socket ids (strings). Session descriptions
  and media streams are opaque to both programs: they are only stored and forwarded, so
  they are modelled as labels.
\<close>

type_synonym ident = string
type_synonym sdp = string
type_synonym stream = string

text \<open>
  The ICE payload as it travels: the client sends the whole \<^verbatim>\<open>onicecandidate\<close> event as
  \<^verbatim>\<open>candidate\<close>; the event's own \<^verbatim>\<open>candidate\<close> is an RTCIceCandidate or null, whose
  \<^verbatim>\<open>candidate\<close> is a string. Hence \<^verbatim>\<open>data.candidate.candidate.candidate\<close>.
\<close>

record ice_candidate =
  candidate_line :: string
  sdpMLineIndex :: nat

type_synonym ice_event = "ice_candidate option"

text \<open>\<^verbatim>\<open>options.debug\<close>: falsy, truthy, or the string \<^verbatim>\<open>'verbose'\<close>.\<close>

datatype debug = Off | On | Verbose

text \<open>Messages a client sends to the relay (\<^verbatim>\<open>socket.emit\<close> on the client side).\<close>

datatype inbound =
    List
  | Offer ident sdp
  | Answer ident sdp
  | IceCandidate ident "ice_event option"
  | PeerConnected ident
  | StreamRemoved ident

text \<open>Messages the relay sends to a client.\<close>

datatype outbound =
    Initialized
  | ListReply "ident list"
  | NewConnection ident
  | OfferFrom ident sdp
  | AnswerFrom ident sdp
  | IceCandidateFrom ident "ice_event option"
  | PeerConnectedFrom ident
  | StreamRemovedFrom ident
  | Disconnect ident

section \<open>Array.prototype.forEach with a callback that splices\<close>

text \<open>
  \<^verbatim>\<open>forEach\<close> reads the length once, then visits the indices \<open>0 .. len - 1\<close> in order and
  skips an index that the array no longer has. The callback of \<^verbatim>\<open>removeUser\<close> and of
  \<^verbatim>\<open>disconnectConnection\<close> is \<^verbatim>\<open>if (match) array.splice(index, 1)\<close>: the element is
  removed, the later ones move down by one, and the element that moved into \<open>index\<close>
  is never visited. The second component collects the removed elements, in order.
\<close>

function forEach_splice ::
  "('a \<Rightarrow> bool) \<Rightarrow> nat \<Rightarrow> nat \<Rightarrow> 'a list \<times> 'a list \<Rightarrow> 'a list \<times> 'a list" where
  "forEach_splice P k len (xs, removed) =
     (if k < len then
        (if k < length xs \<and> P (xs ! k)
         then forEach_splice P (Suc k) len (take k xs @ drop (Suc k) xs, removed @ [xs ! k])
         else forEach_splice P (Suc k) len (xs, removed))
      else (xs, removed))"
  by pat_completeness auto
termination
  by (relation "measure (\<lambda>(P, k, len, s). len - k)") auto

declare forEach_splice.simps [simp del]

section \<open>The signaling relay\<close>

record socket =
  sid :: ident

record relay =
  roomName :: string
  clients :: "socket list"

text \<open>What a handler does to the outside: the transport calls and the console.\<close>

datatype effect =
    Join socket string
  | Emit socket outbound
  | BroadcastOthers socket outbound
  | RoomEmit outbound
  | Log string

text \<open>The effects that send a message to some client.\<close>

fun is_delivery :: "effect \<Rightarrow> bool" where
  "is_delivery (Log _) = False"
| "is_delivery (Join _ _) = False"
| "is_delivery _ = True"

definition deliveries :: "effect list \<Rightarrow> effect list" where
  "deliveries es = filter is_delivery es"

definition log_if :: "bool \<Rightarrow> string \<Rightarrow> effect list" where
  "log_if b msg = (if b then [Log msg] else [])"

text \<open>\<^verbatim>\<open>findSocket\<close>: the scan keeps the last client whose id matches; \<^verbatim>\<open>false\<close> is \<open>None\<close>.\<close>

definition findSocket :: "relay \<Rightarrow> ident \<Rightarrow> socket option" where
  "findSocket r i =
     foldl (\<lambda>foundClient client. if sid client = i then Some client else foundClient)
       None (clients r)"

definition getUserIds :: "relay \<Rightarrow> ident \<Rightarrow> ident list" where
  "getUserIds r currentId =
     foldl (\<lambda>ids client. if sid client \<noteq> currentId then ids @ [sid client] else ids)
       [] (clients r)"

definition removeUser :: "debug \<Rightarrow> relay \<Rightarrow> ident \<Rightarrow> relay \<times> effect list" where
  "removeUser dbg r i =
     (case forEach_splice (\<lambda>client. sid client = i) 0 (length (clients r)) (clients r, []) of
        (cs, removed) \<Rightarrow>
          (r\<lparr>clients := cs\<rparr>,
           concat (map (\<lambda>client.
             log_if (dbg \<noteq> Off) (''Signaller: user '' @ sid client @ '' disconnected'')) removed)))"

text \<open>The \<^verbatim>\<open>connection\<close> handler of \<^verbatim>\<open>start\<close>, up to the binding of the message handlers.\<close>

definition on_connection :: "debug \<Rightarrow> relay \<Rightarrow> socket \<Rightarrow> relay \<times> effect list" where
  "on_connection dbg r s =
     (r\<lparr>clients := clients r @ [s]\<rparr>,
      [Join s (roomName r), Emit s Initialized, BroadcastOthers s (NewConnection (sid s))]
      @ log_if (dbg \<noteq> Off) (''Signaller: user '' @ sid s @ '' connected''))"

text \<open>The message handlers \<^verbatim>\<open>start\<close> binds on a socket; \<open>s\<close> is the sending socket.\<close>

fun on_message :: "debug \<Rightarrow> relay \<Rightarrow> socket \<Rightarrow> inbound \<Rightarrow> relay \<times> effect list" where
  "on_message dbg r s List =
     (r, [Emit s (ListReply (getUserIds r (sid s)))]
         @ log_if (dbg \<noteq> Off) ''Signaller: user list sent'')"
| "on_message dbg r s (Offer target offer) =
     (case findSocket r target of
        Some recipient \<Rightarrow>
          (r, [Emit recipient (OfferFrom (sid s) offer)]
              @ log_if (dbg \<noteq> Off)
                  (''Signaller: user '' @ sid s @ '' sent offer to '' @ sid recipient))
      | None \<Rightarrow> (r, []))"
| "on_message dbg r s (Answer target answer) =
     (case findSocket r target of
        Some recipient \<Rightarrow>
          (r, [Emit recipient (AnswerFrom (sid s) answer)]
              @ log_if (dbg \<noteq> Off)
                  (''Signaller: user '' @ sid s @ '' sent answer to '' @ sid recipient))
      | None \<Rightarrow> (r, []))"
| "on_message dbg r s (PeerConnected i) =
     (case findSocket r i of
        Some recipient \<Rightarrow>
          (r, log_if (dbg \<noteq> Off)
                (''Signaller: user '' @ i @ '' connected with user '' @ sid s)
              @ [Emit recipient (PeerConnectedFrom (sid s))])
      | None \<Rightarrow> (r, []))"
| "on_message dbg r s (IceCandidate target candidate) =
     (case findSocket r target of
        Some recipient \<Rightarrow>
          (r, log_if (dbg = Verbose)
                (''Sending ice candidate from '' @ sid s @ '' to '' @ target)
              @ [Emit recipient (IceCandidateFrom (sid s) candidate)])
      | None \<Rightarrow> (r, log_if (dbg \<noteq> Off) ''Recipient not found!''))"
| "on_message dbg r s (StreamRemoved target) =
     (case findSocket r target of
        Some recipient \<Rightarrow>
          (r, log_if (dbg \<noteq> Off)
                (''Sending streamremoved from '' @ sid s @ '' to '' @ target)
              @ [Emit recipient (StreamRemovedFrom (sid s))])
      | None \<Rightarrow> (r, []))"

text \<open>The \<^verbatim>\<open>disconnect\<close> handler (channel close).\<close>

definition on_disconnect :: "debug \<Rightarrow> relay \<Rightarrow> socket \<Rightarrow> relay \<times> effect list" where
  "on_disconnect dbg r s =
     (case removeUser dbg r (sid s) of
        (r', logs) \<Rightarrow> (r', logs @ [RoomEmit (Disconnect (sid s))]))"

section \<open>The client orchestrator\<close>

text \<open>
  The transport layer (RTCPeerConnection, getUserMedia, the socket) is external. Each
  call into a connection handle is recorded on the handle, with the continuation the
  code passes; the continuations and the handle's event handlers are functions of
  their own below, run when the transport calls back. Constructing a session
  description or an ICE candidate from a payload is taken to succeed.
\<close>

datatype error = TypeError

text \<open>The values the \<^verbatim>\<open>suppress\<close> parameter receives, and JavaScript's truthiness.\<close>

datatype jsval = Undefined | JBool bool | JNum nat

fun truthy :: "jsval \<Rightarrow> bool" where
  "truthy Undefined = False"
| "truthy (JBool b) = b"
| "truthy (JNum n) = (n \<noteq> 0)"

text \<open>\<^verbatim>\<open>a && b\<close>\<close>

definition js_and :: "jsval \<Rightarrow> jsval \<Rightarrow> jsval" where
  "js_and a b = (if truthy a then b else a)"

text \<open>Decimal digits of a number, for the console messages.\<close>

fun show_nat :: "nat \<Rightarrow> string" where
  "show_nat n =
     (if n < 10 then [char_of (48 + n)]
      else show_nat (n div 10) @ [char_of (48 + n mod 10)])"

declare show_nat.simps [simp del]

text \<open>
  A Peer Connection Entry is a mutable object \<^verbatim>\<open>{connection, id}\<close>, shared by reference
  between the table \<^verbatim>\<open>peerConnections\<close> and the closures bound to its handles. Entries
  and handles live in two stores; an address is an index, and allocation appends.
\<close>

record peer =
  pid :: ident
  connection :: nat

text \<open>The success continuations passed to \<^verbatim>\<open>setRemoteDescription\<close>, each closed over a peer.\<close>

datatype on_success = ThenCreateAnswer nat | ThenPeerConnected nat

datatype call =
    AddStream stream
  | CreateOffer nat
  | CreateAnswer nat
  | SetLocalDescription sdp
  | SetRemoteDescription sdp on_success
  | AddIceCandidate string nat
  | Close

text \<open>
  A handle: the closure its three event handlers share (the entry and the \<^verbatim>\<open>suppress\<close>
  value \<^verbatim>\<open>bindConnectionEvents\<close> was called with), what \<^verbatim>\<open>getRemoteStreams()\<close> returns,
  and the calls made on it.
\<close>

record conn =
  bound :: "(nat \<times> jsval) option"
  remoteStreams :: "stream list"
  calls :: "call list"

text \<open>Notifications to application code (\<^verbatim>\<open>this.emit\<close>).\<close>

datatype app_event =
    RemoteStreamAdded stream ident
  | DataChannelAdded string ident
  | PeerconnectedEv ident
  | PeerDisconnected ident
  | RemoteStreamRemoved ident
  | LocalStreamAdded stream
  | LocalStreamRemoved

record client =
  debug_opt :: debug
  peers :: "peer list"
  peerConnections :: "nat list"
  conns :: "conn list"
  localStream :: "stream option"
  emitted :: "app_event list"
  sent :: "inbound list"
  console :: "string list"

definition console_log :: "bool \<Rightarrow> string \<Rightarrow> client \<Rightarrow> client" where
  "console_log b msg st = (if b then st\<lparr>console := console st @ [msg]\<rparr> else st)"

definition emit :: "app_event \<Rightarrow> client \<Rightarrow> client" where
  "emit e st = st\<lparr>emitted := emitted st @ [e]\<rparr>"

definition socket_emit :: "inbound \<Rightarrow> client \<Rightarrow> client" where
  "socket_emit m st = st\<lparr>sent := sent st @ [m]\<rparr>"

definition record_call :: "nat \<Rightarrow> call \<Rightarrow> client \<Rightarrow> client" where
  "record_call h c st =
     st\<lparr>conns := (conns st)[h := (conns st ! h)\<lparr>calls := calls (conns st ! h) @ [c]\<rparr>]\<rparr>"

text \<open>\<^verbatim>\<open>new this.PeerConnection(this.iceServers)\<close>\<close>

definition newPeerConnection :: "client \<Rightarrow> client \<times> nat" where
  "newPeerConnection st =
     (st\<lparr>conns := conns st @ [\<lparr>bound = None, remoteStreams = [], calls = []\<rparr>]\<rparr>,
      length (conns st))"

definition getPeerList :: "client \<Rightarrow> client" where
  "getPeerList st = socket_emit List st"

definition hasPeer :: "client \<Rightarrow> ident \<Rightarrow> bool" where
  "hasPeer st i =
     foldl (\<lambda>foundPeer a. if pid (peers st ! a) = i then True else foundPeer)
       False (peerConnections st)"

definition bindConnectionEvents :: "client \<Rightarrow> nat \<Rightarrow> jsval \<Rightarrow> client" where
  "bindConnectionEvents st p suppress =
     (let st1 = console_log (debug_opt st \<noteq> Off)
                  (''Binding connection events for peer: '' @ pid (peers st ! p)) st;
          h = connection (peers st1 ! p)
      in st1\<lparr>conns := (conns st1)[h := (conns st1 ! h)\<lparr>bound := Some (p, suppress)\<rparr>]\<rparr>)"

definition createOffer :: "client \<Rightarrow> nat \<Rightarrow> client" where
  "createOffer st p =
     record_call (connection (peers st ! p)) (CreateOffer p)
       (console_log (debug_opt st \<noteq> Off) (''Creating offer for: '' @ pid (peers st ! p)) st)"

definition sendOffer :: "client \<Rightarrow> ident \<Rightarrow> sdp \<Rightarrow> client" where
  "sendOffer st target offer =
     socket_emit (Offer target offer)
       (console_log (debug_opt st \<noteq> Off) (''Sending offer to '' @ target) st)"

text \<open>
  The success callback of \<^verbatim>\<open>createOffer\<close>. \<^verbatim>\<open>sendOffer(...)\<close> stands in argument
  position of \<^verbatim>\<open>setLocalDescription\<close>, so the offer is sent while the arguments are
  evaluated, and the call itself gets no success callback.
\<close>

definition createOffer_success :: "client \<Rightarrow> nat \<Rightarrow> sdp \<Rightarrow> client" where
  "createOffer_success st p offer =
     (let st1 = sendOffer st (pid (peers st ! p)) offer
      in record_call (connection (peers st1 ! p)) (SetLocalDescription offer) st1)"

definition addStreamToPeer :: "client \<Rightarrow> stream \<Rightarrow> nat \<Rightarrow> client" where
  "addStreamToPeer st s p =
     (let st1 = console_log (debug_opt st \<noteq> Off) (''Stream added to '' @ pid (peers st ! p)) st;
          st2 = record_call (connection (peers st1 ! p)) (AddStream s) st1
      in createOffer st2 p)"

text \<open>\<^verbatim>\<open>addPeer\<close> returns the new entry, or \<^verbatim>\<open>undefined\<close> (\<open>None\<close>) when the id is known.\<close>

definition addPeer :: "client \<Rightarrow> ident \<Rightarrow> jsval \<Rightarrow> client \<times> nat option" where
  "addPeer st i suppress =
     (if \<not> hasPeer st i then
        (let st1 = console_log True (''Adding peer: '' @ i) st;
             (st2, h) = newPeerConnection st1;
             p = length (peers st2);
             st3 = st2\<lparr>peers := peers st2 @ [\<lparr>pid = i, connection = h\<rparr>]\<rparr>;
             st4 = bindConnectionEvents st3 p suppress;
             st5 = st4\<lparr>peerConnections := peerConnections st4 @ [p]\<rparr>;
             st6 = (case localStream st5 of
                      Some s \<Rightarrow> addStreamToPeer st5 s p
                    | None \<Rightarrow> st5)
         in (st6, Some p))
      else (st, None))"

text \<open>
  \<^verbatim>\<open>peers.forEach(this.addPeer.bind(this))\<close>: \<^verbatim>\<open>forEach\<close> calls its callback with
  (element, index, array), so \<^verbatim>\<open>addPeer\<close> receives the index as \<^verbatim>\<open>suppress\<close>.
\<close>

fun addPeers :: "client \<Rightarrow> nat \<Rightarrow> ident list \<Rightarrow> client" where
  "addPeers st k [] = st"
| "addPeers st k (i # is) = addPeers (fst (addPeer st i (JNum k))) (Suc k) is"

definition generateConnections :: "client \<Rightarrow> ident list \<Rightarrow> client" where
  "generateConnections st ps =
     addPeers
       (console_log (debug_opt st \<noteq> Off)
          (''Received list, creating connection(s) for '' @ show_nat (length ps) @ '' peers'') st)
       0 ps"

text \<open>The scan of \<^verbatim>\<open>getPeer\<close>: the last entry of the table whose id matches.\<close>

definition findPeer :: "client \<Rightarrow> ident \<Rightarrow> nat option" where
  "findPeer st i =
     foldl (\<lambda>foundPeer a. if pid (peers st ! a) = i then Some a else foundPeer)
       None (peerConnections st)"

definition getPeer :: "client \<Rightarrow> ident \<Rightarrow> client \<times> nat option" where
  "getPeer st i =
     (case findPeer st i of
        Some a \<Rightarrow> (st, Some a)
      | None \<Rightarrow> addPeer st i Undefined)"

text \<open>
  The handlers below read \<^verbatim>\<open>peer.id\<close> and \<^verbatim>\<open>peer.connection\<close> of what \<^verbatim>\<open>getPeer\<close> returned;
  on \<^verbatim>\<open>undefined\<close> that read throws.
\<close>

definition sendAnswer :: "client \<Rightarrow> ident \<Rightarrow> sdp \<Rightarrow> client" where
  "sendAnswer st target answer =
     socket_emit (Answer target answer)
       (console_log (debug_opt st \<noteq> Off) (''Sent answer to peer: '' @ target) st)"

definition createAnswer :: "client \<Rightarrow> ident \<Rightarrow> sdp \<Rightarrow> error + client" where
  "createAnswer st sender offer =
     (case getPeer st sender of
        (st1, None) \<Rightarrow> Inl TypeError
      | (st1, Some p) \<Rightarrow>
          Inr (record_call (connection (peers st1 ! p))
                 (SetRemoteDescription offer (ThenCreateAnswer p))
                 (console_log (debug_opt st1 \<noteq> Off)
                    (''Creating answer for '' @ pid (peers st1 ! p)) st1)))"

text \<open>The two nested callbacks of \<^verbatim>\<open>createAnswer\<close>.\<close>

definition createAnswer_remoteSet :: "client \<Rightarrow> nat \<Rightarrow> client" where
  "createAnswer_remoteSet st p = record_call (connection (peers st ! p)) (CreateAnswer p) st"

definition createAnswer_success :: "client \<Rightarrow> nat \<Rightarrow> sdp \<Rightarrow> client" where
  "createAnswer_success st p answer =
     (let st1 = sendAnswer st (pid (peers st ! p)) answer
      in record_call (connection (peers st1 ! p)) (SetLocalDescription answer) st1)"

definition peerConnected :: "client \<Rightarrow> ident \<Rightarrow> client" where
  "peerConnected st i =
     console_log (debug_opt st \<noteq> Off) (''Signaling with peer: '' @ i) (emit (PeerconnectedEv i) st)"

definition handleAnswer :: "client \<Rightarrow> ident \<Rightarrow> sdp \<Rightarrow> error + client" where
  "handleAnswer st sender answer =
     (case getPeer st sender of
        (st1, None) \<Rightarrow> Inl TypeError
      | (st1, Some p) \<Rightarrow>
          Inr (record_call (connection (peers st1 ! p))
                 (SetRemoteDescription answer (ThenPeerConnected p))
                 (console_log (debug_opt st1 \<noteq> Off)
                    (''Handling answer from: '' @ pid (peers st1 ! p)) st1)))"

text \<open>The success callback of \<^verbatim>\<open>handleAnswer\<close>.\<close>

definition handleAnswer_success :: "client \<Rightarrow> nat \<Rightarrow> client" where
  "handleAnswer_success st p =
     socket_emit (PeerConnected (pid (peers st ! p))) (peerConnected st (pid (peers st ! p)))"

definition logError :: "client \<Rightarrow> string \<Rightarrow> client" where
  "logError st err =
     console_log True
       (if debug_opt st \<noteq> Off then err else ''There was an error with the signaller'') st"

definition disconnectConnection :: "client \<Rightarrow> ident \<Rightarrow> error + client" where
  "disconnectConnection st i =
     (case getPeer st i of
        (st1, None) \<Rightarrow> Inl TypeError
      | (st1, Some p) \<Rightarrow>
          (let st2 = record_call (connection (peers st1 ! p)) Close st1;
               st3 = emit (RemoteStreamRemoved i) (emit (PeerDisconnected i) st2);
               st4 = console_log (debug_opt st3 \<noteq> Off) (''Disconnected with peer: '' @ i) st3
           in Inr (st4\<lparr>peerConnections :=
                     fst (forEach_splice (\<lambda>a. pid (peers st4 ! a) = i) 0
                            (length (peerConnections st4)) (peerConnections st4, []))\<rparr>)))"

definition addStream :: "client \<Rightarrow> stream \<Rightarrow> client" where
  "addStream st s = foldl (\<lambda>st' a. addStreamToPeer st' s a) st (peerConnections st)"

text \<open>The success callback of \<^verbatim>\<open>getUserMedia\<close> in \<^verbatim>\<open>addLocalStream\<close>.\<close>

definition addLocalStream_success :: "client \<Rightarrow> stream \<Rightarrow> client" where
  "addLocalStream_success st s =
     (let st1 = addStream (st\<lparr>localStream := Some s\<rparr>) s;
          st2 = emit (LocalStreamAdded s) st1
      in console_log (debug_opt st2 \<noteq> Off) ''Local stream added'' st2)"

definition regenStream :: "client \<Rightarrow> nat \<Rightarrow> jsval \<Rightarrow> client" where
  "regenStream st p suppress =
     (let st1 = console_log (debug_opt st \<noteq> Off)
                  (''Regenerating PeerConnection for '' @ pid (peers st ! p)) st;
          suppress' = js_and suppress
                        (JNum (length (remoteStreams (conns st1 ! connection (peers st1 ! p)))));
          (st2, h) = newPeerConnection st1;
          st3 = st2\<lparr>peers := (peers st2)[p := (peers st2 ! p)\<lparr>connection := h\<rparr>]\<rparr>;
          st4 = bindConnectionEvents st3 p suppress'
      in (case localStream st4 of
            Some s \<Rightarrow> addStreamToPeer st4 s p
          | None \<Rightarrow> st4))"

text \<open>\<^verbatim>\<open>this.localStream.stop()\<close> throws when there is no local stream.\<close>

definition removeLocalStream :: "client \<Rightarrow> error + client" where
  "removeLocalStream st =
     (case localStream st of
        None \<Rightarrow> Inl TypeError
      | Some s \<Rightarrow>
          (let st1 = st\<lparr>localStream := None\<rparr>;
               st2 = foldl (\<lambda>st' a.
                        regenStream
                          (socket_emit (StreamRemoved (pid (peers st' ! a)))
                             (console_log (debug_opt st' \<noteq> Off)
                                (''Local stream removed from '' @ pid (peers st' ! a)) st'))
                          a (JBool True))
                      st1 (peerConnections st1)
           in Inr (emit LocalStreamRemoved st2)))"

definition removeRemoteStream :: "client \<Rightarrow> ident \<Rightarrow> error + client" where
  "removeRemoteStream st i =
     (let st1 = console_log (debug_opt st \<noteq> Off) (''Removing stream from: '' @ i)
                  (emit (RemoteStreamRemoved i) st)
      in case getPeer st1 i of
           (st2, None) \<Rightarrow> Inl TypeError
         | (st2, Some p) \<Rightarrow> Inr (regenStream st2 p Undefined))"

text \<open>
  \<^verbatim>\<open>data.candidate && data.candidate.candidate && data.candidate.candidate.candidate\<close>:
  the event is there, its candidate is not null, and the candidate string is not empty.
\<close>

definition receiveIceCandidate :: "client \<Rightarrow> ident \<Rightarrow> ice_event option \<Rightarrow> error + client" where
  "receiveIceCandidate st sender candidate =
     (case candidate of
        Some (Some c) \<Rightarrow>
          (if candidate_line c \<noteq> [] then
             (case getPeer st sender of
                (st1, None) \<Rightarrow> Inl TypeError
              | (st1, Some p) \<Rightarrow>
                  Inr (record_call (connection (peers st1 ! p))
                         (AddIceCandidate (candidate_line c) (sdpMLineIndex c))
                         (console_log (debug_opt st1 = Verbose)
                            (''Added ICE candidate from '' @ pid (peers st1 ! p)) st1)))
           else Inr st)
      | _ \<Rightarrow> Inr st)"

text \<open>
  The handlers \<^verbatim>\<open>bindConnectionEvents\<close> puts on a handle, run when the transport fires
  the event on handle \<open>h\<close>. A handle that was never bound has no handler.
\<close>

definition onicecandidate :: "client \<Rightarrow> nat \<Rightarrow> ice_event \<Rightarrow> client" where
  "onicecandidate st h ev =
     (case bound (conns st ! h) of
        None \<Rightarrow> st
      | Some (p, suppress) \<Rightarrow>
          socket_emit (IceCandidate (pid (peers st ! p)) (Some ev))
            (console_log (debug_opt st = Verbose)
               (''Sending ICE candidate to '' @ pid (peers st ! p)) st))"

definition onaddstream :: "client \<Rightarrow> nat \<Rightarrow> stream \<Rightarrow> client" where
  "onaddstream st h s =
     (case bound (conns st ! h) of
        None \<Rightarrow> st
      | Some (p, suppress) \<Rightarrow>
          (let st1 = console_log (debug_opt st \<noteq> Off)
                       (''Remote stream added from '' @ pid (peers st ! p)) st
           in if \<not> truthy suppress
              then emit (RemoteStreamAdded s (pid (peers st1 ! p))) st1
              else console_log (debug_opt st1 \<noteq> Off) ''onaddstream event suppressed'' st1))"

definition ondatachannel :: "client \<Rightarrow> nat \<Rightarrow> string \<Rightarrow> client" where
  "ondatachannel st h ch =
     (case bound (conns st ! h) of
        None \<Rightarrow> st
      | Some (p, suppress) \<Rightarrow>
          emit (DataChannelAdded ch (pid (peers st ! p)))
            (console_log (debug_opt st \<noteq> Off)
               (''Data channel added from '' @ pid (peers st ! p)) st))"

text \<open>\<^verbatim>\<open>bindEvents\<close>: the handler of each message of the relay.\<close>

fun on_event :: "client \<Rightarrow> outbound \<Rightarrow> error + client" where
  "on_event st Initialized = Inr (getPeerList st)"
| "on_event st (ListReply ps) = Inr (generateConnections st ps)"
| "on_event st (OfferFrom sender offer) = createAnswer st sender offer"
| "on_event st (AnswerFrom sender answer) = handleAnswer st sender answer"
| "on_event st (IceCandidateFrom sender candidate) = receiveIceCandidate st sender candidate"
| "on_event st (NewConnection i) = Inr (fst (addPeer st i Undefined))"
| "on_event st (Disconnect i) = disconnectConnection st i"
| "on_event st (PeerConnectedFrom i) = Inr (peerConnected st i)"
| "on_event st (StreamRemovedFrom i) = removeRemoteStream st i"

text \<open>The client as the constructor leaves it.\<close>

definition new_client :: "debug \<Rightarrow> client" where
  "new_client dbg =
     \<lparr>debug_opt = dbg, peers = [], peerConnections = [], conns = [], localStream = None,
      emitted = [], sent = [], console = []\<rparr>"

section \<open>Observations on the client state\<close>

text \<open>The ids of the Peer Table, in table order.\<close>

definition table_ids :: "client \<Rightarrow> ident list" where
  "table_ids st = map (\<lambda>a. pid (peers st ! a)) (peerConnections st)"

text \<open>
  Every reference is an allocated object: the table holds addresses of entries, and
  every entry holds the address of a handle. The JavaScript heap gives this for free.
\<close>

definition well_formed :: "client \<Rightarrow> bool" where
  "well_formed st =
     ((\<forall>a \<in> set (peerConnections st). a < length (peers st)) \<and>
      (\<forall>p \<in> set (peers st). connection p < length (conns st)))"

text \<open>At most one entry per remote id.\<close>

definition peer_table_inv :: "client \<Rightarrow> bool" where
  "peer_table_inv st = (well_formed st \<and> distinct (table_ids st))"

section \<open>Facts about the relay\<close>

lemma findSocket_foldl_Some:
  "foldl (\<lambda>f c. if sid c = i then Some c else f) (Some x) cs \<noteq> None"
  by (induction cs arbitrary: x) auto

lemma findSocket_foldl_None:
  "(foldl (\<lambda>f c. if sid c = i then Some c else f) None cs = None) = (i \<notin> sid ` set cs)"
  by (induction cs) (auto simp: findSocket_foldl_Some)

lemma findSocket_None_iff: "(findSocket r i = None) = (i \<notin> sid ` set (clients r))"
  by (simp add: findSocket_def findSocket_foldl_None)

lemma getUserIds_foldl:
  "foldl (\<lambda>ids c. if sid c \<noteq> x then ids @ [sid c] else ids) acc cs
     = acc @ filter (\<lambda>i. i \<noteq> x) (map sid cs)"
  by (induction cs arbitrary: acc) auto

lemma getUserIds_filter: "getUserIds r x = filter (\<lambda>i. i \<noteq> x) (map sid (clients r))"
  by (simp add: getUserIds_def getUserIds_foldl)

section \<open>Facts about the splicing loop\<close>

lemma forEach_splice_no_match:
  "(\<And>j. k \<le> j \<Longrightarrow> j < length xs \<Longrightarrow> \<not> P (xs ! j)) \<Longrightarrow>
   forEach_splice P k len (xs, removed) = (xs, removed)"
proof (induction P k len "(xs, removed)" arbitrary: xs removed rule: forEach_splice.induct)
  case (1 P k len xs removed)
  show ?case
  proof (cases "k < len")
    case True
    have nk: "\<not> (k < length xs \<and> P (xs ! k))" using "1.prems" [of k] by auto
    have "forEach_splice P (Suc k) len (xs, removed) = (xs, removed)"
      using "1.hyps"(2) [OF True nk] "1.prems" by simp
    then show ?thesis using True nk by (subst forEach_splice.simps) auto
  next
    case False
    then show ?thesis by (subst forEach_splice.simps) simp
  qed
qed

lemma filter_single_out:
  assumes k: "k < length xs" and pk: "P (xs ! k)"
    and uniq: "\<And>j. j < length xs \<Longrightarrow> P (xs ! j) \<Longrightarrow> j = k"
  shows "filter (\<lambda>x. \<not> P x) xs = take k xs @ drop (Suc k) xs"
    and "\<And>j. j < length (take k xs @ drop (Suc k) xs) \<Longrightarrow> \<not> P ((take k xs @ drop (Suc k) xs) ! j)"
proof -
  have t: "\<forall>x\<in>set (take k xs). \<not> P x"
  proof
    fix x assume "x \<in> set (take k xs)"
    then obtain j where j: "j < length (take k xs)" "take k xs ! j = x"
      by (auto simp: in_set_conv_nth)
    then have "j < k" "j < length xs" "xs ! j = x" by auto
    then show "\<not> P x" using uniq [of j] by auto
  qed
  have d: "\<forall>x\<in>set (drop (Suc k) xs). \<not> P x"
  proof
    fix x assume "x \<in> set (drop (Suc k) xs)"
    then obtain j where j: "j < length (drop (Suc k) xs)" "drop (Suc k) xs ! j = x"
      by (auto simp: in_set_conv_nth)
    then have "Suc k + j < length xs" "xs ! (Suc k + j) = x" by auto
    then show "\<not> P x" using uniq [of "Suc k + j"] by auto
  qed
  have "xs = take k xs @ xs ! k # drop (Suc k) xs" using k by (rule id_take_nth_drop)
  then have "filter (\<lambda>x. \<not> P x) xs
      = filter (\<lambda>x. \<not> P x) (take k xs) @ filter (\<lambda>x. \<not> P x) (xs ! k # drop (Suc k) xs)"
    by (metis filter_append)
  also have "\<dots> = take k xs @ drop (Suc k) xs" using t d pk by simp
  finally show "filter (\<lambda>x. \<not> P x) xs = take k xs @ drop (Suc k) xs" .
  fix j assume "j < length (take k xs @ drop (Suc k) xs)"
  then have "(take k xs @ drop (Suc k) xs) ! j \<in> set (take k xs @ drop (Suc k) xs)"
    by (rule nth_mem)
  then show "\<not> P ((take k xs @ drop (Suc k) xs) ! j)" using t d by auto
qed

lemma forEach_splice_unique:
  "(\<And>j j'. j < length xs \<Longrightarrow> j' < length xs \<Longrightarrow> P (xs ! j) \<Longrightarrow> P (xs ! j') \<Longrightarrow> j = j') \<Longrightarrow>
   (\<And>j. j < k \<Longrightarrow> j < length xs \<Longrightarrow> \<not> P (xs ! j)) \<Longrightarrow>
   length xs \<le> len \<Longrightarrow>
   fst (forEach_splice P k len (xs, removed)) = filter (\<lambda>x. \<not> P x) xs"
proof (induction P k len "(xs, removed)" arbitrary: xs removed rule: forEach_splice.induct)
  case (1 P k len xs removed)
  show ?case
  proof (cases "k < len")
    case True
    show ?thesis
    proof (cases "k < length xs \<and> P (xs ! k)")
      case hit: True
      have u: "\<And>j. j < length xs \<Longrightarrow> P (xs ! j) \<Longrightarrow> j = k"
        using "1.prems"(1) hit by blast
      have "forEach_splice P (Suc k) len (take k xs @ drop (Suc k) xs, removed @ [xs ! k])
              = (take k xs @ drop (Suc k) xs, removed @ [xs ! k])"
        by (rule forEach_splice_no_match) (use filter_single_out(2) [of k xs P] hit u in blast)
      moreover have "filter (\<lambda>x. \<not> P x) xs = take k xs @ drop (Suc k) xs"
        using filter_single_out(1) [of k xs P] hit u by blast
      ultimately show ?thesis using True hit by (subst forEach_splice.simps) simp
    next
      case miss: False
      have pre: "\<And>j. j < Suc k \<Longrightarrow> j < length xs \<Longrightarrow> \<not> P (xs ! j)"
        using "1.prems"(2) miss less_Suc_eq by auto
      have "fst (forEach_splice P (Suc k) len (xs, removed)) = filter (\<lambda>x. \<not> P x) xs"
        using "1.hyps"(2) [OF True miss] "1.prems"(1) pre "1.prems"(3) by blast
      then show ?thesis using True miss by (subst forEach_splice.simps) auto
    qed
  next
    case False
    then have "\<And>j. j < length xs \<Longrightarrow> \<not> P (xs ! j)" using "1.prems"(2,3) by auto
    then have "filter (\<lambda>x. \<not> P x) xs = xs" by (auto simp: filter_id_conv in_set_conv_nth)
    then show ?thesis using False by (subst forEach_splice.simps) simp
  qed
qed

lemma forEach_splice_distinct:
  assumes "distinct (map f xs)"
  shows "fst (forEach_splice (\<lambda>x. f x = i) 0 (length xs) (xs, [])) = filter (\<lambda>x. f x \<noteq> i) xs"
proof (rule forEach_splice_unique)
  fix j j' assume "j < length xs" "j' < length xs" "f (xs ! j) = i" "f (xs ! j') = i"
  then have "map f xs ! j = map f xs ! j'" "j < length (map f xs)" "j' < length (map f xs)"
    by simp_all
  then show "j = j'" using assms nth_eq_iff_index_eq by blast
qed simp_all

section \<open>Frame facts for the client\<close>

lemma console_log_fields [simp]:
  "debug_opt (console_log b m st) = debug_opt st"
  "peers (console_log b m st) = peers st"
  "peerConnections (console_log b m st) = peerConnections st"
  "conns (console_log b m st) = conns st"
  "localStream (console_log b m st) = localStream st"
  "emitted (console_log b m st) = emitted st"
  "sent (console_log b m st) = sent st"
  by (simp_all add: console_log_def)

lemma emit_fields [simp]:
  "debug_opt (emit e st) = debug_opt st"
  "peers (emit e st) = peers st"
  "peerConnections (emit e st) = peerConnections st"
  "conns (emit e st) = conns st"
  "localStream (emit e st) = localStream st"
  "emitted (emit e st) = emitted st @ [e]"
  "sent (emit e st) = sent st"
  by (simp_all add: emit_def)

lemma socket_emit_fields [simp]:
  "debug_opt (socket_emit m st) = debug_opt st"
  "peers (socket_emit m st) = peers st"
  "peerConnections (socket_emit m st) = peerConnections st"
  "conns (socket_emit m st) = conns st"
  "localStream (socket_emit m st) = localStream st"
  "emitted (socket_emit m st) = emitted st"
  "sent (socket_emit m st) = sent st @ [m]"
  by (simp_all add: socket_emit_def)

lemma record_call_fields [simp]:
  "debug_opt (record_call h c st) = debug_opt st"
  "peers (record_call h c st) = peers st"
  "peerConnections (record_call h c st) = peerConnections st"
  "length (conns (record_call h c st)) = length (conns st)"
  "localStream (record_call h c st) = localStream st"
  "emitted (record_call h c st) = emitted st"
  "sent (record_call h c st) = sent st"
  by (simp_all add: record_call_def)



lemma record_call_conn:
  "h < length (conns st) \<Longrightarrow>
   conns (record_call h c st) ! h' =
     (if h' = h then (conns st ! h)\<lparr>calls := calls (conns st ! h) @ [c]\<rparr> else conns st ! h')"
  by (simp add: record_call_def)

lemma record_call_bound [simp]:
  "bound (conns (record_call h c st) ! h') = bound (conns st ! h')"
proof (cases "h < length (conns st)")
  case True
  then show ?thesis by (simp add: record_call_conn)
next
  case False
  then show ?thesis by (simp add: record_call_def not_less list_update_beyond)
qed

lemma record_call_remoteStreams [simp]:
  "remoteStreams (conns (record_call h c st) ! h') = remoteStreams (conns st ! h')"
proof (cases "h < length (conns st)")
  case True
  then show ?thesis by (simp add: record_call_conn)
next
  case False
  then show ?thesis by (simp add: record_call_def not_less list_update_beyond)
qed


lemma bind_fields [simp]:
  "debug_opt (bindConnectionEvents st p s) = debug_opt st"
  "peers (bindConnectionEvents st p s) = peers st"
  "peerConnections (bindConnectionEvents st p s) = peerConnections st"
  "length (conns (bindConnectionEvents st p s)) = length (conns st)"
  "localStream (bindConnectionEvents st p s) = localStream st"
  "emitted (bindConnectionEvents st p s) = emitted st"
  "sent (bindConnectionEvents st p s) = sent st"
  by (simp_all add: bindConnectionEvents_def Let_def)

lemma bind_conn:
  "connection (peers st ! p) < length (conns st) \<Longrightarrow>
   conns (bindConnectionEvents st p s) ! h' =
     (if h' = connection (peers st ! p)
      then (conns st ! h')\<lparr>bound := Some (p, s)\<rparr> else conns st ! h')"
  by (simp add: bindConnectionEvents_def Let_def)

lemma createOffer_fields [simp]:
  "debug_opt (createOffer st p) = debug_opt st"
  "peers (createOffer st p) = peers st"
  "peerConnections (createOffer st p) = peerConnections st"
  "length (conns (createOffer st p)) = length (conns st)"
  "localStream (createOffer st p) = localStream st"
  "emitted (createOffer st p) = emitted st"
  "sent (createOffer st p) = sent st"
  "bound (conns (createOffer st p) ! h') = bound (conns st ! h')"
  "remoteStreams (conns (createOffer st p) ! h') = remoteStreams (conns st ! h')"
  by (simp_all add: createOffer_def)

lemma addStreamToPeer_fields [simp]:
  "debug_opt (addStreamToPeer st s p) = debug_opt st"
  "peers (addStreamToPeer st s p) = peers st"
  "peerConnections (addStreamToPeer st s p) = peerConnections st"
  "length (conns (addStreamToPeer st s p)) = length (conns st)"
  "localStream (addStreamToPeer st s p) = localStream st"
  "emitted (addStreamToPeer st s p) = emitted st"
  "sent (addStreamToPeer st s p) = sent st"
  "bound (conns (addStreamToPeer st s p) ! h') = bound (conns st ! h')"
  "remoteStreams (conns (addStreamToPeer st s p) ! h') = remoteStreams (conns st ! h')"
  by (simp_all add: addStreamToPeer_def Let_def)

lemma addStreamToPeer_conn:
  "connection (peers st ! p) < length (conns st) \<Longrightarrow>
   conns (addStreamToPeer st s p) ! h' =
     (if h' = connection (peers st ! p)
      then (conns st ! h')\<lparr>calls := calls (conns st ! h') @ [AddStream s, CreateOffer p]\<rparr>
      else conns st ! h')"
  by (simp add: addStreamToPeer_def Let_def createOffer_def record_call_conn)


lemma hasPeer_foldl:
  "foldl (\<lambda>f a. if pid (ps ! a) = i then True else f) b tab
     = (b \<or> i \<in> set (map (\<lambda>a. pid (ps ! a)) tab))"
  by (induction tab arbitrary: b) auto

lemma hasPeer_iff: "hasPeer st i = (i \<in> set (table_ids st))"
  by (simp add: hasPeer_def table_ids_def hasPeer_foldl)

lemma findPeer_snoc:
  "findPeer (st\<lparr>peerConnections := tab @ [a]\<rparr>) i =
     (if pid (peers st ! a) = i then Some a else findPeer (st\<lparr>peerConnections := tab\<rparr>) i)"
  by (simp add: findPeer_def)

lemma findPeer_foldl_Some:
  "foldl (\<lambda>f a. if pid (ps ! a) = i then Some a else f) (Some x) tab \<noteq> None"
  by (induction tab arbitrary: x) auto

lemma findPeer_foldl_None:
  "(foldl (\<lambda>f a. if pid (ps ! a) = i then Some a else f) None tab = None)
     = (i \<notin> set (map (\<lambda>a. pid (ps ! a)) tab))"
  by (induction tab) (auto simp: findPeer_foldl_Some)

lemma findPeer_None_iff: "(findPeer st i = None) = (i \<notin> set (table_ids st))"
  by (simp add: findPeer_def table_ids_def findPeer_foldl_None)

lemma findPeer_foldl_mem:
  "foldl (\<lambda>f a. if pid (ps ! a) = i then Some a else f) b tab = Some a \<Longrightarrow>
   (b = Some a) \<or> (a \<in> set tab \<and> pid (ps ! a) = i)"
  by (induction tab arbitrary: b) (auto split: if_splits)

lemma findPeer_Some:
  "findPeer st i = Some a \<Longrightarrow> a \<in> set (peerConnections st) \<and> pid (peers st ! a) = i"
  using findPeer_foldl_mem [of "peers st" i None "peerConnections st" a]
  by (simp add: findPeer_def)

lemma addPeer_known: "i \<in> set (table_ids st) \<Longrightarrow> addPeer st i s = (st, None)"
  by (simp add: addPeer_def hasPeer_iff)

lemma addPeer_fresh_snd:
  "i \<notin> set (table_ids st) \<Longrightarrow> snd (addPeer st i s) = Some (length (peers st))"
  by (simp add: addPeer_def hasPeer_iff newPeerConnection_def Let_def)

lemma addPeer_fresh_peers:
  "i \<notin> set (table_ids st) \<Longrightarrow>
   peers (fst (addPeer st i s)) = peers st @ [\<lparr>pid = i, connection = length (conns st)\<rparr>]"
  by (simp add: addPeer_def hasPeer_iff newPeerConnection_def Let_def split: option.split)

lemma addPeer_fresh_table:
  "i \<notin> set (table_ids st) \<Longrightarrow>
   peerConnections (fst (addPeer st i s)) = peerConnections st @ [length (peers st)]"
  by (simp add: addPeer_def hasPeer_iff newPeerConnection_def Let_def split: option.split)

lemma addPeer_fresh_conns:
  "i \<notin> set (table_ids st) \<Longrightarrow>
   conns (fst (addPeer st i s)) =
     conns st @ [\<lparr>bound = Some (length (peers st), s), remoteStreams = [],
                  calls = (case localStream st of
                             None \<Rightarrow> []
                           | Some x \<Rightarrow> [AddStream x, CreateOffer (length (peers st))])\<rparr>]"
  by (simp add: addPeer_def hasPeer_iff newPeerConnection_def Let_def
        bindConnectionEvents_def addStreamToPeer_def createOffer_def record_call_def
        console_log_def split: option.split)

lemma addPeer_frame [simp]:
  "localStream (fst (addPeer st i s)) = localStream st"
  "emitted (fst (addPeer st i s)) = emitted st"
  "sent (fst (addPeer st i s)) = sent st"
  "debug_opt (fst (addPeer st i s)) = debug_opt st"
  by (simp_all add: addPeer_def newPeerConnection_def Let_def split: option.split)

section \<open>The table invariant under \<^verbatim>\<open>addPeer\<close> and \<^verbatim>\<open>getPeer\<close>\<close>


lemma well_formed_conn:
  "well_formed st \<Longrightarrow> p < length (peers st) \<Longrightarrow> connection (peers st ! p) < length (conns st)"
  by (simp add: well_formed_def)

lemma addPeer_fresh_ids:
  assumes "well_formed st" "i \<notin> set (table_ids st)"
  shows "table_ids (fst (addPeer st i s)) = table_ids st @ [i]"
proof -
  have "map (\<lambda>a. pid ((peers st @ [\<lparr>pid = i, connection = length (conns st)\<rparr>]) ! a))
          (peerConnections st) = map (\<lambda>a. pid (peers st ! a)) (peerConnections st)"
    using assms(1) by (intro map_cong) (auto simp: nth_append well_formed_def)
  then show ?thesis
    using assms(2) by (simp add: table_ids_def addPeer_fresh_peers addPeer_fresh_table)
qed

lemma addPeer_well_formed:
  assumes "well_formed st"
  shows "well_formed (fst (addPeer st i s))"
proof (cases "i \<in> set (table_ids st)")
  case True
  then show ?thesis using assms by (simp add: addPeer_known)
next
  case False
  then show ?thesis using assms
    by (auto simp: well_formed_def addPeer_fresh_peers addPeer_fresh_table addPeer_fresh_conns
          less_Suc_eq)
qed

lemma addPeer_inv:
  assumes "peer_table_inv st"
  shows "peer_table_inv (fst (addPeer st i s))"
proof (cases "i \<in> set (table_ids st)")
  case True
  then show ?thesis using assms by (simp add: addPeer_known)
next
  case False
  then show ?thesis using assms
    by (simp add: peer_table_inv_def addPeer_well_formed addPeer_fresh_ids)
qed

lemma addPeers_inv: "peer_table_inv st \<Longrightarrow> peer_table_inv (addPeers st k ps)"
  by (induction ps arbitrary: st k) (simp_all add: addPeer_inv)

lemma console_log_inv [simp]: "peer_table_inv (console_log b m st) = peer_table_inv st"
  by (simp add: peer_table_inv_def well_formed_def table_ids_def)

lemma generateConnections_inv:
  "peer_table_inv st \<Longrightarrow> peer_table_inv (generateConnections st ps)"
  by (simp add: generateConnections_def addPeers_inv)

lemma getPeer_known:
  "i \<in> set (table_ids st) \<Longrightarrow> \<exists>a. getPeer st i = (st, Some a) \<and> findPeer st i = Some a"
  using findPeer_None_iff [of st i] by (auto simp: getPeer_def)

lemma getPeer_fresh: "i \<notin> set (table_ids st) \<Longrightarrow> getPeer st i = addPeer st i Undefined"
  using findPeer_None_iff [of st i] by (simp add: getPeer_def)

lemma getPeer_inv: "peer_table_inv st \<Longrightarrow> peer_table_inv (fst (getPeer st i))"
proof (cases "i \<in> set (table_ids st)")
  case True
  assume "peer_table_inv st"
  then show ?thesis using getPeer_known [OF True] by auto
next
  case False
  assume "peer_table_inv st"
  then show ?thesis by (simp add: getPeer_fresh [OF False] addPeer_inv)
qed

text \<open>What \<^verbatim>\<open>getPeer\<close> returns is never \<^verbatim>\<open>undefined\<close>: it is an entry of the table for the id.\<close>

lemma getPeer_returns:
  assumes "well_formed st"
  shows "\<exists>p. snd (getPeer st i) = Some p \<and> p \<in> set (peerConnections (fst (getPeer st i)))
           \<and> p < length (peers (fst (getPeer st i)))
           \<and> pid (peers (fst (getPeer st i)) ! p) = i"
proof (cases "i \<in> set (table_ids st)")
  case True
  then obtain a where a: "getPeer st i = (st, Some a)" "findPeer st i = Some a"
    using getPeer_known by blast
  then show ?thesis using findPeer_Some [OF a(2)] assms by (auto simp: well_formed_def)
next
  case False
  then show ?thesis
    by (simp add: getPeer_fresh addPeer_fresh_snd addPeer_fresh_peers addPeer_fresh_table)
qed

section \<open>The table invariant under the message handlers\<close>

lemma well_formed_cong:
  "peers st' = peers st \<Longrightarrow> peerConnections st' = peerConnections st \<Longrightarrow>
   length (conns st') = length (conns st) \<Longrightarrow> well_formed st' = well_formed st"
  by (simp add: well_formed_def)

lemma peer_table_inv_cong:
  "peers st' = peers st \<Longrightarrow> peerConnections st' = peerConnections st \<Longrightarrow>
   length (conns st') = length (conns st) \<Longrightarrow> peer_table_inv st' = peer_table_inv st"
  by (simp add: peer_table_inv_def table_ids_def well_formed_def)

lemma record_call_inv [simp]: "peer_table_inv (record_call h c st) = peer_table_inv st"
  by (rule peer_table_inv_cong) simp_all

lemma emit_inv [simp]: "peer_table_inv (emit e st) = peer_table_inv st"
  by (rule peer_table_inv_cong) simp_all

lemma socket_emit_inv [simp]: "peer_table_inv (socket_emit m st) = peer_table_inv st"
  by (rule peer_table_inv_cong) simp_all

lemma addStreamToPeer_inv [simp]: "peer_table_inv (addStreamToPeer st s p) = peer_table_inv st"
  by (rule peer_table_inv_cong) simp_all

lemma getPeer_split:
  "\<exists>st1 r. getPeer st i = (st1, r)"
  by (cases "getPeer st i") simp

lemma createAnswer_inv:
  assumes "peer_table_inv st"
  shows "\<exists>st'. createAnswer st sender offer = Inr st' \<and> peer_table_inv st'"
proof -
  obtain st1 r where g: "getPeer st sender = (st1, r)" by (cases "getPeer st sender")
  have wf: "well_formed st" using assms by (simp add: peer_table_inv_def)
  obtain p where p: "r = Some p" using getPeer_returns [OF wf, of sender] g by auto
  have "peer_table_inv st1" using getPeer_inv [OF assms, of sender] g by simp
  then show ?thesis using g p by (simp add: createAnswer_def)
qed

lemma handleAnswer_inv:
  assumes "peer_table_inv st"
  shows "\<exists>st'. handleAnswer st sender answer = Inr st' \<and> peer_table_inv st'"
proof -
  obtain st1 r where g: "getPeer st sender = (st1, r)" by (cases "getPeer st sender")
  have wf: "well_formed st" using assms by (simp add: peer_table_inv_def)
  obtain p where p: "r = Some p" using getPeer_returns [OF wf, of sender] g by auto
  have "peer_table_inv st1" using getPeer_inv [OF assms, of sender] g by simp
  then show ?thesis using g p by (simp add: handleAnswer_def)
qed

lemma receiveIceCandidate_inv:
  assumes "peer_table_inv st"
  shows "\<exists>st'. receiveIceCandidate st sender candidate = Inr st' \<and> peer_table_inv st'"
proof -
  obtain st1 r where g: "getPeer st sender = (st1, r)" by (cases "getPeer st sender")
  have wf: "well_formed st" using assms by (simp add: peer_table_inv_def)
  obtain p where p: "r = Some p" using getPeer_returns [OF wf, of sender] g by auto
  have i1: "peer_table_inv st1" using getPeer_inv [OF assms, of sender] g by simp
  show ?thesis
  proof (cases candidate)
    case None
    then show ?thesis using assms by (simp add: receiveIceCandidate_def)
  next
    case (Some ev)
    show ?thesis
    proof (cases ev)
      case None
      then show ?thesis using Some assms by (simp add: receiveIceCandidate_def)
    next
      case (Some c)
      then show ?thesis using \<open>candidate = Some ev\<close> assms g p i1
        by (cases "candidate_line c = []") (simp_all add: receiveIceCandidate_def)
    qed
  qed
qed

text \<open>The table after \<^verbatim>\<open>disconnectConnection\<close>, from the table \<^verbatim>\<open>getPeer\<close> left.\<close>

lemma disconnectConnection_result:
  assumes "peer_table_inv st"
  shows "\<exists>st1 p st'. getPeer st i = (st1, Some p) \<and> disconnectConnection st i = Inr st'
           \<and> peers st' = peers st1
           \<and> peerConnections st' = filter (\<lambda>a. pid (peers st1 ! a) \<noteq> i) (peerConnections st1)
           \<and> conns st' = conns (record_call (connection (peers st1 ! p)) Close st1)
           \<and> emitted st' = emitted st1 @ [PeerDisconnected i, RemoteStreamRemoved i]
           \<and> sent st' = sent st1 \<and> localStream st' = localStream st1"
proof -
  obtain st1 r where g: "getPeer st i = (st1, r)" by (cases "getPeer st i")
  have wf: "well_formed st" using assms by (simp add: peer_table_inv_def)
  obtain p where p: "r = Some p" using getPeer_returns [OF wf, of i] g by auto
  have "peer_table_inv st1" using getPeer_inv [OF assms, of i] g by simp
  then have d: "distinct (map (\<lambda>a. pid (peers st1 ! a)) (peerConnections st1))"
    by (simp add: peer_table_inv_def table_ids_def)
  define st4 where "st4 = console_log (debug_opt st1 \<noteq> Off) (''Disconnected with peer: '' @ i)
      (emit (RemoteStreamRemoved i) (emit (PeerDisconnected i)
         (record_call (connection (peers st1 ! p)) Close st1)))"
  define tab where "tab = fst (forEach_splice (\<lambda>a. pid (peers st4 ! a) = i) 0
                            (length (peerConnections st4)) (peerConnections st4, []))"
  have eq: "disconnectConnection st i = Inr (st4\<lparr>peerConnections := tab\<rparr>)"
    using g p by (simp add: disconnectConnection_def Let_def st4_def tab_def)
  have f4: "peers st4 = peers st1" "peerConnections st4 = peerConnections st1"
    "conns st4 = conns (record_call (connection (peers st1 ! p)) Close st1)"
    "emitted st4 = emitted st1 @ [PeerDisconnected i, RemoteStreamRemoved i]"
    "sent st4 = sent st1" "localStream st4 = localStream st1"
    by (simp_all add: st4_def)
  have "tab = filter (\<lambda>a. pid (peers st1 ! a) \<noteq> i) (peerConnections st1)"
    unfolding tab_def f4 using forEach_splice_distinct [OF d, of i] .
  then show ?thesis using eq g p f4 by simp
qed

lemma table_ids_filter:
  "peers st' = peers st \<Longrightarrow>
   peerConnections st' = filter (\<lambda>a. pid (peers st ! a) \<noteq> i) (peerConnections st) \<Longrightarrow>
   table_ids st' = filter (\<lambda>j. j \<noteq> i) (table_ids st)"
  by (simp add: table_ids_def filter_map comp_def)

lemma disconnectConnection_inv:
  assumes "peer_table_inv st"
  shows "\<exists>st'. disconnectConnection st i = Inr st' \<and> peer_table_inv st'"
proof -
  obtain st1 p st' where r: "getPeer st i = (st1, Some p)" "disconnectConnection st i = Inr st'"
      "peers st' = peers st1"
      "peerConnections st' = filter (\<lambda>a. pid (peers st1 ! a) \<noteq> i) (peerConnections st1)"
      "conns st' = conns (record_call (connection (peers st1 ! p)) Close st1)"
    using disconnectConnection_result [OF assms, of i] by blast
  have i1: "peer_table_inv st1" using getPeer_inv [OF assms, of i] r(1) by simp
  have "table_ids st' = filter (\<lambda>j. j \<noteq> i) (table_ids st1)"
    using table_ids_filter [OF r(3) r(4)] .
  moreover have "well_formed st'"
    using i1 r(3,4,5) by (auto simp: peer_table_inv_def well_formed_def)
  ultimately show ?thesis using r(2) i1 by (simp add: peer_table_inv_def)
qed

section \<open>The table invariant under handle replacement and under every message\<close>

lemma regenStream_peers:
  "peers (regenStream st p s) = (peers st)[p := (peers st ! p)\<lparr>connection := length (conns st)\<rparr>]"
  by (simp add: regenStream_def newPeerConnection_def Let_def split: option.split)

lemma regenStream_frame [simp]:
  "peerConnections (regenStream st p s) = peerConnections st"
  "localStream (regenStream st p s) = localStream st"
  "emitted (regenStream st p s) = emitted st"
  "sent (regenStream st p s) = sent st"
  "debug_opt (regenStream st p s) = debug_opt st"
  by (simp_all add: regenStream_def newPeerConnection_def Let_def split: option.split)

lemma regenStream_pid [simp]: "pid (peers (regenStream st p s) ! a) = pid (peers st ! a)"
proof (cases "a = p \<and> p < length (peers st)")
  case True
  then show ?thesis by (simp add: regenStream_peers)
next
  case False
  then show ?thesis
    by (cases "a = p") (simp_all add: regenStream_peers not_less list_update_beyond)
qed

lemma regenStream_table_ids [simp]: "table_ids (regenStream st p s) = table_ids st"
  by (simp add: table_ids_def)

lemma regenStream_conns:
  "p < length (peers st) \<Longrightarrow>
   conns (regenStream st p s) =
     conns st @ [\<lparr>bound = Some (p, js_and s (JNum (length (remoteStreams
                     (conns st ! connection (peers st ! p)))))),
                  remoteStreams = [],
                  calls = (case localStream st of
                             None \<Rightarrow> []
                           | Some x \<Rightarrow> [AddStream x, CreateOffer p])\<rparr>]"
  by (simp add: regenStream_def newPeerConnection_def Let_def
        bindConnectionEvents_def addStreamToPeer_def createOffer_def record_call_def
        console_log_def split: option.split)

lemma regenStream_length_conns:
  "length (conns (regenStream st p s)) = Suc (length (conns st))"
  by (simp add: regenStream_def newPeerConnection_def Let_def split: option.split)

lemma regenStream_well_formed:
  assumes "well_formed st"
  shows "well_formed (regenStream st p s)"
proof -
  have "\<forall>q \<in> set (peers (regenStream st p s)). connection q < Suc (length (conns st))"
  proof
    fix q assume "q \<in> set (peers (regenStream st p s))"
    then have "q \<in> insert ((peers st ! p)\<lparr>connection := length (conns st)\<rparr>) (set (peers st))"
      using set_update_subset_insert [of "peers st" p] by (auto simp: regenStream_peers)
    then show "connection q < Suc (length (conns st))"
      using assms by (auto simp: well_formed_def less_Suc_eq)
  qed
  moreover have "\<forall>a \<in> set (peerConnections st). a < length (peers (regenStream st p s))"
    using assms by (simp add: well_formed_def regenStream_peers)
  ultimately show ?thesis by (simp add: well_formed_def regenStream_length_conns)
qed

lemma regenStream_inv: "peer_table_inv st \<Longrightarrow> peer_table_inv (regenStream st p s)"
  by (simp add: peer_table_inv_def regenStream_well_formed)

lemma removeRemoteStream_inv:
  assumes "peer_table_inv st"
  shows "\<exists>st'. removeRemoteStream st i = Inr st' \<and> peer_table_inv st'"
proof -
  define st0 where "st0 = console_log (debug_opt st \<noteq> Off) (''Removing stream from: '' @ i)
                            (emit (RemoteStreamRemoved i) st)"
  have i0: "peer_table_inv st0" using assms by (simp add: st0_def)
  obtain st1 r where g: "getPeer st0 i = (st1, r)" by (cases "getPeer st0 i")
  have wf: "well_formed st0" using i0 by (simp add: peer_table_inv_def)
  obtain p where p: "r = Some p" using getPeer_returns [OF wf, of i] g by auto
  have "peer_table_inv st1" using getPeer_inv [OF i0, of i] g by simp
  then have "peer_table_inv (regenStream st1 p Undefined)" by (rule regenStream_inv)
  moreover have "removeRemoteStream st i = Inr (regenStream st1 p Undefined)"
    using g p by (simp add: removeRemoteStream_def Let_def st0_def)
  ultimately show ?thesis by simp
qed

lemma peerConnected_inv [simp]: "peer_table_inv (peerConnected st i) = peer_table_inv st"
  by (simp add: peerConnected_def)

lemma on_event_inv:
  assumes "peer_table_inv st"
  shows "\<exists>st'. on_event st m = Inr st' \<and> peer_table_inv st'"
proof (cases m)
  case Initialized
  then show ?thesis using assms by (simp add: getPeerList_def)
next
  case (ListReply ps)
  then show ?thesis using assms by (simp add: generateConnections_inv)
next
  case (NewConnection i)
  then show ?thesis using assms by (simp add: addPeer_inv)
next
  case (OfferFrom sender offer)
  then show ?thesis using createAnswer_inv [OF assms] by simp
next
  case (AnswerFrom sender answer)
  then show ?thesis using handleAnswer_inv [OF assms] by simp
next
  case (IceCandidateFrom sender candidate)
  then show ?thesis using receiveIceCandidate_inv [OF assms] by simp
next
  case (PeerConnectedFrom i)
  then show ?thesis using assms by simp
next
  case (StreamRemovedFrom i)
  then show ?thesis using removeRemoteStream_inv [OF assms] by simp
next
  case (Disconnect i)
  then show ?thesis using disconnectConnection_inv [OF assms] by simp
qed

lemma new_client_inv: "peer_table_inv (new_client dbg)"
  by (simp add: new_client_def peer_table_inv_def well_formed_def table_ids_def)

lemma table_ids_old_peers:
  assumes "well_formed st" "peers st1 = peers st @ ps" "peerConnections st1 = peerConnections st @ qs"
  shows "filter (\<lambda>a. pid (peers st1 ! a) \<noteq> i) (peerConnections st)
           = filter (\<lambda>a. pid (peers st ! a) \<noteq> i) (peerConnections st)"
  using assms(1) by (intro filter_cong) (auto simp: assms(2) nth_append well_formed_def)

lemma filter_absent_id:
  "i \<notin> set (table_ids st) \<Longrightarrow>
   filter (\<lambda>a. pid (peers st ! a) \<noteq> i) (peerConnections st) = peerConnections st"
  by (auto simp: table_ids_def filter_id_conv)

text \<open>The client list after a channel close, when ids are unique.\<close>

lemma removeUser_clients:
  assumes "distinct (map sid (clients r))"
  shows "clients (fst (removeUser dbg r i)) = filter (\<lambda>c. sid c \<noteq> i) (clients r)"
proof -
  obtain cs removed where
    f: "forEach_splice (\<lambda>c. sid c = i) 0 (length (clients r)) (clients r, []) = (cs, removed)"
    by (cases "forEach_splice (\<lambda>c. sid c = i) 0 (length (clients r)) (clients r, [])")
  have "cs = filter (\<lambda>c. sid c \<noteq> i) (clients r)"
    using forEach_splice_distinct [OF assms, of i] f by simp
  then show ?thesis using f by (simp add: removeUser_def)
qed

lemma on_disconnect_clients:
  assumes "distinct (map sid (clients r))"
  shows "clients (fst (on_disconnect dbg r s)) = filter (\<lambda>c. sid c \<noteq> sid s) (clients r)"
  using removeUser_clients [OF assms, of dbg "sid s"]
  by (cases "removeUser dbg r (sid s)") (simp add: on_disconnect_def)

text \<open>The whole state after \<^verbatim>\<open>addPeer\<close> of an unknown id, and after \<^verbatim>\<open>disconnectConnection\<close>.\<close>

lemma addPeer_fresh_state:
  "i \<notin> set (table_ids st) \<Longrightarrow>
   fst (addPeer st i s) =
     st\<lparr>peers := peers st @ [\<lparr>pid = i, connection = length (conns st)\<rparr>],
        peerConnections := peerConnections st @ [length (peers st)],
        conns := conns st @ [\<lparr>bound = Some (length (peers st), s), remoteStreams = [],
                  calls = (case localStream st of
                             None \<Rightarrow> []
                           | Some x \<Rightarrow> [AddStream x, CreateOffer (length (peers st))])\<rparr>],
        console := console st @ [''Adding peer: '' @ i]
          @ (if debug_opt st \<noteq> Off then [''Binding connection events for peer: '' @ i] else [])
          @ (case localStream st of
               None \<Rightarrow> []
             | Some x \<Rightarrow> (if debug_opt st \<noteq> Off
                          then [''Stream added to '' @ i, ''Creating offer for: '' @ i]
                          else []))\<rparr>"
proof -
  assume fresh: "i \<notin> set (table_ids st)"
  show ?thesis
  proof (cases "localStream st")
    case None
    then show ?thesis using fresh
      by (cases "debug_opt st = Off")
         (simp_all add: addPeer_def hasPeer_iff newPeerConnection_def Let_def
            bindConnectionEvents_def console_log_def)
  next
    case (Some x)
    then show ?thesis using fresh
      by (cases "debug_opt st = Off")
         (simp_all add: addPeer_def hasPeer_iff newPeerConnection_def Let_def
            bindConnectionEvents_def addStreamToPeer_def createOffer_def record_call_def
            console_log_def)
  qed
qed


lemma getPeer_fresh_fst:
  "i \<notin> set (table_ids st) \<Longrightarrow> getPeer st i = (st1, r) \<Longrightarrow> st1 = fst (addPeer st i Undefined)"
  by (simp add: getPeer_fresh)

lemma disconnectConnection_state:
  assumes "peer_table_inv st"
  shows "\<exists>st1 p. getPeer st i = (st1, Some p) \<and>
           disconnectConnection st i =
             Inr (st1\<lparr>peerConnections :=
                        filter (\<lambda>a. pid (peers st1 ! a) \<noteq> i) (peerConnections st1),
                      conns := (conns st1)[connection (peers st1 ! p) :=
                          (conns st1 ! connection (peers st1 ! p))
                            \<lparr>calls := calls (conns st1 ! connection (peers st1 ! p)) @ [Close]\<rparr>],
                      emitted := emitted st1 @ [PeerDisconnected i, RemoteStreamRemoved i],
                      console := console st1
                        @ (if debug_opt st1 \<noteq> Off
                           then [''Disconnected with peer: '' @ i] else [])\<rparr>)"
proof -
  obtain st1 r where g: "getPeer st i = (st1, r)" by (cases "getPeer st i")
  have wf: "well_formed st" using assms by (simp add: peer_table_inv_def)
  obtain p where p: "r = Some p" using getPeer_returns [OF wf, of i] g by auto
  have "peer_table_inv st1" using getPeer_inv [OF assms, of i] g by simp
  then have d: "distinct (map (\<lambda>a. pid (peers st1 ! a)) (peerConnections st1))"
    by (simp add: peer_table_inv_def table_ids_def)
  define st4 where "st4 = console_log (debug_opt st1 \<noteq> Off) (''Disconnected with peer: '' @ i)
      (emit (RemoteStreamRemoved i) (emit (PeerDisconnected i)
         (record_call (connection (peers st1 ! p)) Close st1)))"
  define tab where "tab = fst (forEach_splice (\<lambda>a. pid (peers st4 ! a) = i) 0
                            (length (peerConnections st4)) (peerConnections st4, []))"
  have eq: "disconnectConnection st i = Inr (st4\<lparr>peerConnections := tab\<rparr>)"
    using g p by (simp add: disconnectConnection_def Let_def st4_def tab_def)
  have f4: "peers st4 = peers st1" "peerConnections st4 = peerConnections st1"
    by (simp_all add: st4_def)
  have t: "tab = filter (\<lambda>a. pid (peers st1 ! a) \<noteq> i) (peerConnections st1)"
    unfolding tab_def f4 using forEach_splice_distinct [OF d, of i] .
  have "st4\<lparr>peerConnections := tab\<rparr> =
          st1\<lparr>peerConnections :=
                        filter (\<lambda>a. pid (peers st1 ! a) \<noteq> i) (peerConnections st1),
                      conns := (conns st1)[connection (peers st1 ! p) :=
                          (conns st1 ! connection (peers st1 ! p))
                            \<lparr>calls := calls (conns st1 ! connection (peers st1 ! p)) @ [Close]\<rparr>],
                      emitted := emitted st1 @ [PeerDisconnected i, RemoteStreamRemoved i],
                      console := console st1
                        @ (if debug_opt st1 \<noteq> Off
                           then [''Disconnected with peer: '' @ i] else [])\<rparr>"
    by (cases "debug_opt st1 = Off")
       (simp_all add: t st4_def record_call_def emit_def console_log_def)
  then show ?thesis using eq g p by simp
qed

section \<open>The claims about the relay\<close>

text \<open>
  C5. For every registry state and every id \<open>x\<close>, \<^verbatim>\<open>getUserIds(x)\<close> returns exactly the ids
  of the registered clients other than \<open>x\<close>, in the order of the client list; the client
  list is in join order, since a connection appends its socket at the end (so the list
  the relay returns after a join is the old one, followed by the joiner unless the
  joiner is \<open>x\<close>).
\<close>

theorem getUserIds_others_in_join_order:
  "getUserIds r x = filter (\<lambda>i. i \<noteq> x) (map sid (clients r)) \<and>
   set (getUserIds r x) = sid ` set (clients r) - {x} \<and>
   getUserIds (fst (on_connection dbg r s)) x
     = getUserIds r x @ (if sid s = x then [] else [sid s])"
  by (auto simp: getUserIds_filter on_connection_def)

text \<open>
  C6. A routed message (offer, answer, icecandidate, peerconnected, streamremoved) whose
  target is the id of no registered client leaves the relay as it was and makes no
  transport call at all: nothing is delivered and the sender gets no reply. Only the
  icecandidate handler writes a console line, and only when debugging is on.
\<close>

theorem routing_miss_is_dropped:
  assumes "t \<notin> sid ` set (clients r)"
  shows "on_message dbg r s (Offer t offer) = (r, []) \<and>
         on_message dbg r s (Answer t answer) = (r, []) \<and>
         on_message dbg r s (PeerConnected t) = (r, []) \<and>
         on_message dbg r s (StreamRemoved t) = (r, []) \<and>
         on_message dbg r s (IceCandidate t c)
           = (r, if dbg \<noteq> Off then [Log ''Recipient not found!''] else []) \<and>
         deliveries (snd (on_message dbg r s (IceCandidate t c))) = []"
proof -
  have "findSocket r t = None" using assms by (simp add: findSocket_None_iff)
  then show ?thesis by (simp add: log_if_def deliveries_def)
qed

theorem routing_miss_is_dropped_witness:
  "''ghost'' \<notin> sid ` set (clients \<lparr>roomName = ''default'', clients = [\<lparr>sid = ''a''\<rparr>, \<lparr>sid = ''b''\<rparr>]\<rparr>) \<and>
   on_message On \<lparr>roomName = ''default'', clients = [\<lparr>sid = ''a''\<rparr>, \<lparr>sid = ''b''\<rparr>]\<rparr>
     \<lparr>sid = ''a''\<rparr> (Offer ''ghost'' ''sdp'')
     = (\<lparr>roomName = ''default'', clients = [\<lparr>sid = ''a''\<rparr>, \<lparr>sid = ''b''\<rparr>]\<rparr>, []) \<and>
   on_message On \<lparr>roomName = ''default'', clients = [\<lparr>sid = ''a''\<rparr>, \<lparr>sid = ''b''\<rparr>]\<rparr>
     \<lparr>sid = ''a''\<rparr> (IceCandidate ''ghost'' None)
     = (\<lparr>roomName = ''default'', clients = [\<lparr>sid = ''a''\<rparr>, \<lparr>sid = ''b''\<rparr>]\<rparr>,
        [Log ''Recipient not found!''])"
proof -
  have h: "''ghost'' \<notin> sid ` set (clients \<lparr>roomName = ''default'',
             clients = [\<lparr>sid = ''a''\<rparr>, \<lparr>sid = ''b''\<rparr>]\<rparr>)"
    by simp
  show ?thesis
    using h routing_miss_is_dropped [OF h, of On "\<lparr>sid = ''a''\<rparr>" "''sdp''" "''sdp''" None]
    by simp
qed

text \<open>
  C9. None of the six message handlers (list, offer, answer, icecandidate, peerconnected,
  streamremoved) changes the relay: its state after the handler is its state before,
  whatever the payload. A new connection does change it (the socket is appended to the
  client list), and a channel close, when ids are unique, filters the closing socket's
  id out of the client list.
\<close>

theorem relay_stores_no_payload:
  "fst (on_message dbg r s m) = r \<and>
   clients (fst (on_connection dbg r s)) = clients r @ [s] \<and>
   clients (fst (on_connection dbg r s)) \<noteq> clients r \<and>
   (distinct (map sid (clients r)) \<longrightarrow>
      clients (fst (on_disconnect dbg r s)) = filter (\<lambda>c. sid c \<noteq> sid s) (clients r))"
  using on_disconnect_clients [of r dbg s]
  by (cases m) (simp_all add: on_connection_def split: option.split)

theorem relay_stores_no_payload_witness:
  "distinct (map sid (clients \<lparr>roomName = ''default'', clients = [\<lparr>sid = ''a''\<rparr>, \<lparr>sid = ''b''\<rparr>]\<rparr>)) \<and>
   fst (on_message On \<lparr>roomName = ''default'', clients = [\<lparr>sid = ''a''\<rparr>, \<lparr>sid = ''b''\<rparr>]\<rparr>
          \<lparr>sid = ''a''\<rparr> (Offer ''b'' ''sdp''))
     = \<lparr>roomName = ''default'', clients = [\<lparr>sid = ''a''\<rparr>, \<lparr>sid = ''b''\<rparr>]\<rparr> \<and>
   clients (fst (on_disconnect On
          \<lparr>roomName = ''default'', clients = [\<lparr>sid = ''a''\<rparr>, \<lparr>sid = ''b''\<rparr>]\<rparr> \<lparr>sid = ''a''\<rparr>))
     = [\<lparr>sid = ''b''\<rparr>]"
proof -
  have h: "distinct (map sid (clients
             \<lparr>roomName = ''default'', clients = [\<lparr>sid = ''a''\<rparr>, \<lparr>sid = ''b''\<rparr>]\<rparr>))"
    by simp
  show ?thesis
    using h relay_stores_no_payload [of On
        "\<lparr>roomName = ''default'', clients = [\<lparr>sid = ''a''\<rparr>, \<lparr>sid = ''b''\<rparr>]\<rparr>"
        "\<lparr>sid = ''a''\<rparr>" "Offer ''b'' ''sdp''"]
    by simp
qed

text \<open>
  C2, as the code has it. The connection handler appends the socket without looking at
  the client list: every join adds one entry for the socket's id. The list has exactly
  one entry for the id after a join if and only if it had none before.
\<close>

theorem join_appends_one_entry:
  "length (filter (\<lambda>c. sid c = sid s) (clients (fst (on_connection dbg r s))))
     = Suc (length (filter (\<lambda>c. sid c = sid s) (clients r))) \<and>
   ((length (filter (\<lambda>c. sid c = sid s) (clients (fst (on_connection dbg r s)))) = 1)
      = (sid s \<notin> sid ` set (clients r)))"
proof -
  have "(filter (\<lambda>c. sid c = sid s) (clients r) = []) = (sid s \<notin> sid ` set (clients r))"
    by (force simp: filter_empty_conv image_iff)
  then show ?thesis by (simp add: on_connection_def)
qed

text \<open>
  C2 as stated fails: the same socket joining twice is registered twice, and the
  registry differs from the registry after one join.
\<close>

theorem join_twice_counterexample:
  "clients (fst (on_connection Off
      (fst (on_connection Off \<lparr>roomName = ''default'', clients = []\<rparr> \<lparr>sid = ''a''\<rparr>)) \<lparr>sid = ''a''\<rparr>))
     = [\<lparr>sid = ''a''\<rparr>, \<lparr>sid = ''a''\<rparr>] \<and>
   clients (fst (on_connection Off \<lparr>roomName = ''default'', clients = []\<rparr> \<lparr>sid = ''a''\<rparr>))
     = [\<lparr>sid = ''a''\<rparr>]"
  by (simp add: on_connection_def)

section \<open>The claims about the Peer Table\<close>

text \<open>
  C7. At most one Peer Connection Entry exists per remote id: the ids of the table are
  distinct (and every reference of the table is allocated). This holds of a new client
  and is preserved by \<^verbatim>\<open>addPeer\<close>, \<^verbatim>\<open>getPeer\<close>, \<^verbatim>\<open>generateConnections\<close>, \<^verbatim>\<open>createAnswer\<close>,
  \<^verbatim>\<open>handleAnswer\<close>, \<^verbatim>\<open>receiveIceCandidate\<close> and \<^verbatim>\<open>disconnectConnection\<close>, none of which
  throws, and by the handler of every message of the relay.
\<close>

theorem one_entry_per_id_preserved:
  assumes "peer_table_inv st"
  shows "peer_table_inv (new_client dbg) \<and>
         peer_table_inv (fst (addPeer st i s)) \<and>
         peer_table_inv (fst (getPeer st i)) \<and>
         peer_table_inv (generateConnections st ps) \<and>
         (\<exists>st'. createAnswer st i offer = Inr st' \<and> peer_table_inv st') \<and>
         (\<exists>st'. handleAnswer st i answer = Inr st' \<and> peer_table_inv st') \<and>
         (\<exists>st'. receiveIceCandidate st i candidate = Inr st' \<and> peer_table_inv st') \<and>
         (\<exists>st'. disconnectConnection st i = Inr st' \<and> peer_table_inv st') \<and>
         (\<exists>st'. on_event st m = Inr st' \<and> peer_table_inv st')"
  using assms
  by (simp add: new_client_inv addPeer_inv getPeer_inv generateConnections_inv createAnswer_inv
        handleAnswer_inv receiveIceCandidate_inv disconnectConnection_inv on_event_inv)

theorem one_entry_per_id_preserved_witness:
  "peer_table_inv
     \<lparr>debug_opt = Off, peers = [\<lparr>pid = ''a'', connection = 0\<rparr>], peerConnections = [0],
      conns = [\<lparr>bound = Some (0, Undefined), remoteStreams = [], calls = []\<rparr>],
      localStream = None, emitted = [], sent = [], console = []\<rparr> \<and>
   peer_table_inv (fst (addPeer
     \<lparr>debug_opt = Off, peers = [\<lparr>pid = ''a'', connection = 0\<rparr>], peerConnections = [0],
      conns = [\<lparr>bound = Some (0, Undefined), remoteStreams = [], calls = []\<rparr>],
      localStream = None, emitted = [], sent = [], console = []\<rparr> ''a'' Undefined)) \<and>
   peer_table_inv (generateConnections
     \<lparr>debug_opt = Off, peers = [\<lparr>pid = ''a'', connection = 0\<rparr>], peerConnections = [0],
      conns = [\<lparr>bound = Some (0, Undefined), remoteStreams = [], calls = []\<rparr>],
      localStream = None, emitted = [], sent = [], console = []\<rparr> [''b'', ''a'', ''b'']) \<and>
   (\<exists>st'. disconnectConnection
     \<lparr>debug_opt = Off, peers = [\<lparr>pid = ''a'', connection = 0\<rparr>], peerConnections = [0],
      conns = [\<lparr>bound = Some (0, Undefined), remoteStreams = [], calls = []\<rparr>],
      localStream = None, emitted = [], sent = [], console = []\<rparr> ''a'' = Inr st'
      \<and> peer_table_inv st')"
proof -
  have h: "peer_table_inv
     \<lparr>debug_opt = Off, peers = [\<lparr>pid = ''a'', connection = 0\<rparr>], peerConnections = [0],
      conns = [\<lparr>bound = Some (0, Undefined), remoteStreams = [], calls = []\<rparr>],
      localStream = None, emitted = [], sent = [], console = []\<rparr>"
    by (simp add: peer_table_inv_def well_formed_def table_ids_def)
  show ?thesis
    using h one_entry_per_id_preserved [OF h, of Off "''a''" Undefined "[''b'', ''a'', ''b'']"]
    by blast
qed

text \<open>
  C10, as the code has it. From a state with at most one entry per id,
  \<^verbatim>\<open>disconnectConnection(id)\<close> returns (it does not throw); the table then has no entry for
  the id while every other entry stays, in order; exactly \<^verbatim>\<open>peerDisconnected(id)\<close> and
  \<^verbatim>\<open>remoteStreamRemoved(id)\<close> are emitted, once each, in this order; \<^verbatim>\<open>close\<close> is called on
  the entry's handle; nothing is sent on the socket and nothing else of the client
  changes but the console. When the id had no entry, \<^verbatim>\<open>getPeer\<close> first allocates a fresh
  entry and handle for it; with a local stream present the stream is added to the new
  handle and \<^verbatim>\<open>createOffer\<close> is called on it, and then the handle is closed and the entry
  leaves the table again. No offer has been sent by then: \<^verbatim>\<open>offer{target: id}\<close> is sent
  only by the success callback of that \<^verbatim>\<open>createOffer\<close>, when the transport runs it, on the
  handle already closed.
\<close>

theorem disconnectConnection_removes_entry:
  assumes "peer_table_inv st"
  shows "\<exists>st1 p st'. getPeer st i = (st1, Some p) \<and>
           disconnectConnection st i = Inr st' \<and>
           i \<notin> set (table_ids st') \<and>
           table_ids st' = filter (\<lambda>j. j \<noteq> i) (table_ids st) \<and>
           emitted st' = emitted st @ [PeerDisconnected i, RemoteStreamRemoved i] \<and>
           sent st' = sent st \<and>
           localStream st' = localStream st \<and>
           st' = st1\<lparr>peerConnections :=
                        filter (\<lambda>a. pid (peers st1 ! a) \<noteq> i) (peerConnections st1),
                      conns := (conns st1)[connection (peers st1 ! p) :=
                          (conns st1 ! connection (peers st1 ! p))
                            \<lparr>calls := calls (conns st1 ! connection (peers st1 ! p)) @ [Close]\<rparr>],
                      emitted := emitted st1 @ [PeerDisconnected i, RemoteStreamRemoved i],
                      console := console st1
                        @ (if debug_opt st1 \<noteq> Off
                           then [''Disconnected with peer: '' @ i] else [])\<rparr> \<and>
           (i \<in> set (table_ids st) \<longrightarrow> st1 = st \<and> findPeer st i = Some p) \<and>
           (i \<notin> set (table_ids st) \<longrightarrow>
              p = length (peers st) \<and>
              st1 = fst (addPeer st i Undefined) \<and>
              peerConnections st' = peerConnections st \<and>
              peers st' = peers st @ [\<lparr>pid = i, connection = length (conns st)\<rparr>] \<and>
              conns st' = conns st @
                [\<lparr>bound = Some (length (peers st), Undefined), remoteStreams = [],
                  calls = (case localStream st of
                             None \<Rightarrow> [Close]
                           | Some x \<Rightarrow> [AddStream x, CreateOffer (length (peers st)), Close])\<rparr>] \<and>
              sent (createOffer_success st' (length (peers st)) offer) = sent st' @ [Offer i offer] \<and>
              calls (conns (createOffer_success st' (length (peers st)) offer) ! length (conns st))
                = (case localStream st of
                     None \<Rightarrow> [Close, SetLocalDescription offer]
                   | Some x \<Rightarrow> [AddStream x, CreateOffer (length (peers st)), Close,
                               SetLocalDescription offer]))"
proof -
  obtain st1 p where g: "getPeer st i = (st1, Some p)"
    and eq: "disconnectConnection st i =
             Inr (st1\<lparr>peerConnections :=
                        filter (\<lambda>a. pid (peers st1 ! a) \<noteq> i) (peerConnections st1),
                      conns := (conns st1)[connection (peers st1 ! p) :=
                          (conns st1 ! connection (peers st1 ! p))
                            \<lparr>calls := calls (conns st1 ! connection (peers st1 ! p)) @ [Close]\<rparr>],
                      emitted := emitted st1 @ [PeerDisconnected i, RemoteStreamRemoved i],
                      console := console st1
                        @ (if debug_opt st1 \<noteq> Off
                           then [''Disconnected with peer: '' @ i] else [])\<rparr>)"
    using disconnectConnection_state [OF assms, of i] by blast
  define st' where "st' = st1\<lparr>peerConnections :=
                        filter (\<lambda>a. pid (peers st1 ! a) \<noteq> i) (peerConnections st1),
                      conns := (conns st1)[connection (peers st1 ! p) :=
                          (conns st1 ! connection (peers st1 ! p))
                            \<lparr>calls := calls (conns st1 ! connection (peers st1 ! p)) @ [Close]\<rparr>],
                      emitted := emitted st1 @ [PeerDisconnected i, RemoteStreamRemoved i],
                      console := console st1
                        @ (if debug_opt st1 \<noteq> Off
                           then [''Disconnected with peer: '' @ i] else [])\<rparr>"
  have eq': "disconnectConnection st i = Inr st'" using eq by (simp add: st'_def)
  have f: "peers st' = peers st1"
      "peerConnections st' = filter (\<lambda>a. pid (peers st1 ! a) \<noteq> i) (peerConnections st1)"
      "emitted st' = emitted st1 @ [PeerDisconnected i, RemoteStreamRemoved i]"
      "sent st' = sent st1" "localStream st' = localStream st1"
      "conns st' = (conns st1)[connection (peers st1 ! p) :=
                          (conns st1 ! connection (peers st1 ! p))
                            \<lparr>calls := calls (conns st1 ! connection (peers st1 ! p)) @ [Close]\<rparr>]"
    by (simp_all add: st'_def)
  have wf: "well_formed st" using assms by (simp add: peer_table_inv_def)
  have ids': "table_ids st' = filter (\<lambda>j. j \<noteq> i) (table_ids st1)"
    using table_ids_filter [OF f(1) f(2)] .
  show ?thesis
  proof (cases "i \<in> set (table_ids st)")
    case True
    have k: "st1 = st" "findPeer st i = Some p" using getPeer_known [OF True] g by auto
    have "i \<notin> set (table_ids st')" "table_ids st' = filter (\<lambda>j. j \<noteq> i) (table_ids st)"
        "emitted st' = emitted st @ [PeerDisconnected i, RemoteStreamRemoved i]"
        "sent st' = sent st" "localStream st' = localStream st"
      using ids' f k(1) by simp_all
    then show ?thesis using g eq' k True st'_def by blast
  next
    case False
    have a: "addPeer st i Undefined = (st1, Some p)" using getPeer_fresh [OF False] g by simp
    have p: "p = length (peers st)" using addPeer_fresh_snd [OF False, of Undefined] a by simp
    have s1: "st1 = fst (addPeer st i Undefined)" using a by simp
    have ps: "peers st1 = peers st @ [\<lparr>pid = i, connection = length (conns st)\<rparr>]"
      using addPeer_fresh_peers [OF False, of Undefined] a by simp
    have tab: "peerConnections st1 = peerConnections st @ [length (peers st)]"
      using addPeer_fresh_table [OF False, of Undefined] a by simp
    have cs: "conns st1 = conns st @ [\<lparr>bound = Some (length (peers st), Undefined),
                  remoteStreams = [],
                  calls = (case localStream st of
                             None \<Rightarrow> []
                           | Some x \<Rightarrow> [AddStream x, CreateOffer (length (peers st))])\<rparr>]"
      using addPeer_fresh_conns [OF False, of Undefined] a by simp
    have fr: "emitted st1 = emitted st" "sent st1 = sent st" "localStream st1 = localStream st"
      by (simp_all add: s1)
    have ids1: "table_ids st1 = table_ids st @ [i]"
      using addPeer_fresh_ids [OF wf False, of Undefined] a by simp
    have t': "peerConnections st' = peerConnections st"
      using f(2) table_ids_old_peers [OF wf ps tab, of i] filter_absent_id [OF False]
      by (simp add: tab ps)
    have c': "conns st' = conns st @
                [\<lparr>bound = Some (length (peers st), Undefined), remoteStreams = [],
                  calls = (case localStream st of
                             None \<Rightarrow> [Close]
                           | Some x \<Rightarrow> [AddStream x, CreateOffer (length (peers st)), Close])\<rparr>]"
      by (simp add: f(6) p ps cs split: option.split)
    have p': "peers st' = peers st @ [\<lparr>pid = i, connection = length (conns st)\<rparr>]"
      using f(1) ps by simp
    have s': "sent (createOffer_success st' (length (peers st)) offer) = sent st' @ [Offer i offer]"
      by (simp add: createOffer_success_def sendOffer_def Let_def p')
    have l': "calls (conns (createOffer_success st' (length (peers st)) offer) ! length (conns st))
                = (case localStream st of
                     None \<Rightarrow> [Close, SetLocalDescription offer]
                   | Some x \<Rightarrow> [AddStream x, CreateOffer (length (peers st)), Close,
                               SetLocalDescription offer])"
      by (simp add: createOffer_success_def sendOffer_def Let_def p' c' record_call_def
            socket_emit_def console_log_def split: option.split)
    have "i \<notin> set (table_ids st')" "table_ids st' = filter (\<lambda>j. j \<noteq> i) (table_ids st)"
        "emitted st' = emitted st @ [PeerDisconnected i, RemoteStreamRemoved i]"
        "sent st' = sent st" "localStream st' = localStream st"
      using ids' ids1 f fr by simp_all
    then show ?thesis using g eq' False p s1 t' p' c' s' l' st'_def by blast
  qed
qed

theorem disconnectConnection_removes_entry_witness:
  "peer_table_inv
     \<lparr>debug_opt = Off, peers = [], peerConnections = [], conns = [],
      localStream = Some ''cam'', emitted = [], sent = [], console = []\<rparr> \<and>
   (\<exists>st'. disconnectConnection
      \<lparr>debug_opt = Off, peers = [], peerConnections = [], conns = [],
       localStream = Some ''cam'', emitted = [], sent = [], console = []\<rparr> ''b'' = Inr st' \<and>
     ''b'' \<notin> set (table_ids st') \<and>
     emitted st' = [PeerDisconnected ''b'', RemoteStreamRemoved ''b''] \<and>
     sent st' = [] \<and>
     peers st' = [\<lparr>pid = ''b'', connection = 0\<rparr>] \<and>
     conns st' = [\<lparr>bound = Some (0, Undefined), remoteStreams = [],
                   calls = [AddStream ''cam'', CreateOffer 0, Close]\<rparr>] \<and>
     sent (createOffer_success st' 0 ''sdp'') = [Offer ''b'' ''sdp''])"
proof -
  let ?S = "\<lparr>debug_opt = Off, peers = [], peerConnections = [], conns = [],
      localStream = Some ''cam'', emitted = [], sent = [], console = []\<rparr>"
  have h: "peer_table_inv ?S"
    by (simp add: peer_table_inv_def well_formed_def table_ids_def)
  have n: "''b'' \<notin> set (table_ids ?S)" by (simp add: table_ids_def)
  obtain st' where r: "disconnectConnection ?S ''b'' = Inr st'"
      "''b'' \<notin> set (table_ids st')"
      "emitted st' = emitted ?S @ [PeerDisconnected ''b'', RemoteStreamRemoved ''b'']"
      "sent st' = sent ?S"
      "''b'' \<notin> set (table_ids ?S) \<longrightarrow>
         peers st' = peers ?S @ [\<lparr>pid = ''b'', connection = length (conns ?S)\<rparr>] \<and>
         conns st' = conns ?S @
                [\<lparr>bound = Some (length (peers ?S), Undefined), remoteStreams = [],
                  calls = (case localStream ?S of
                             None \<Rightarrow> [Close]
                           | Some x \<Rightarrow> [AddStream x, CreateOffer (length (peers ?S)), Close])\<rparr>] \<and>
         sent (createOffer_success st' (length (peers ?S)) ''sdp'') = sent st' @ [Offer ''b'' ''sdp'']"
    using disconnectConnection_removes_entry [OF h, of "''b''" "''sdp''"] by blast
  show ?thesis using h n r by simp
qed

text \<open>
  C10 as stated fails on the offer: with a local stream and no entry for the id,
  \<^verbatim>\<open>disconnectConnection\<close> completes with \<^verbatim>\<open>createOffer\<close> called on the new handle and the
  handle closed, and nothing has been sent on the socket.
\<close>

theorem no_offer_sent_counterexample:
  "disconnectConnection
      \<lparr>debug_opt = Off, peers = [], peerConnections = [], conns = [],
       localStream = Some ''cam'', emitted = [], sent = [], console = []\<rparr> ''b'' =
     Inr \<lparr>debug_opt = Off, peers = [\<lparr>pid = ''b'', connection = 0\<rparr>], peerConnections = [],
          conns = [\<lparr>bound = Some (0, Undefined), remoteStreams = [],
                    calls = [AddStream ''cam'', CreateOffer 0, Close]\<rparr>],
          localStream = Some ''cam'',
          emitted = [PeerDisconnected ''b'', RemoteStreamRemoved ''b''],
          sent = [], console = [''Adding peer: b'']\<rparr>"
  by (simp add: disconnectConnection_def getPeer_def findPeer_def addPeer_def hasPeer_def
        newPeerConnection_def bindConnectionEvents_def addStreamToPeer_def createOffer_def
        record_call_def console_log_def emit_def Let_def forEach_splice.simps)

section \<open>Facts about the handle events\<close>

lemma getPeer_well_formed: "well_formed st \<Longrightarrow> well_formed (fst (getPeer st i))"
proof (cases "i \<in> set (table_ids st)")
  case True
  assume "well_formed st"
  then show ?thesis using getPeer_known [OF True] by auto
next
  case False
  assume "well_formed st"
  then show ?thesis by (simp add: getPeer_fresh [OF False] addPeer_well_formed)
qed

lemma onaddstream_frame [simp]:
  "conns (onaddstream st h x) = conns st"
  "peers (onaddstream st h x) = peers st"
  "peerConnections (onaddstream st h x) = peerConnections st"
  "sent (onaddstream st h x) = sent st"
  by (simp_all add: onaddstream_def Let_def console_log_def emit_def split: option.split)



section \<open>The claims about answers and handle replacement\<close>

text \<open>
  C1, as the code has it. \<^verbatim>\<open>handleAnswer\<close> keeps no record of offers sent or answers
  applied and checks nothing: for every peer and every received answer it takes the
  entry \<^verbatim>\<open>getPeer\<close> returns (creating one when the id is unknown), and calls
  \<^verbatim>\<open>setRemoteDescription\<close> with the answer on that entry's handle. It does not throw and
  emits nothing by itself; the state it returns is the state \<^verbatim>\<open>getPeer\<close> left, with that
  one call added to that one handle and the console line, so when the id was known
  nothing else of the client changes.
  \<^verbatim>\<open>peerconnected\<close> is emitted and sent only by the success callback of that call, so
  whether an answer without an outstanding offer, or a second answer, takes effect is
  left to the transport.
\<close>

theorem handleAnswer_always_sets_remote_description:
  assumes "well_formed st"
  shows "\<exists>st1 p st'. getPeer st sender = (st1, Some p) \<and>
           handleAnswer st sender answer = Inr st' \<and>
           p \<in> set (peerConnections st') \<and> pid (peers st' ! p) = sender \<and>
           peers st' = peers st1 \<and> peerConnections st' = peerConnections st1 \<and>
           calls (conns st' ! connection (peers st' ! p))
             = calls (conns st1 ! connection (peers st1 ! p))
               @ [SetRemoteDescription answer (ThenPeerConnected p)] \<and>
           emitted st' = emitted st \<and>
           (sender \<in> set (table_ids st) \<longrightarrow> st1 = st \<and> sent st' = sent st) \<and>
           emitted (handleAnswer_success st' p) = emitted st' @ [PeerconnectedEv sender] \<and>
           sent (handleAnswer_success st' p) = sent st' @ [PeerConnected sender] \<and>
           connection (peers st1 ! p) < length (conns st1) \<and>
           st' = st1\<lparr>conns := (conns st1)[connection (peers st1 ! p) :=
                          (conns st1 ! connection (peers st1 ! p))
                            \<lparr>calls := calls (conns st1 ! connection (peers st1 ! p))
                                       @ [SetRemoteDescription answer (ThenPeerConnected p)]\<rparr>],
                      console := console st1
                        @ (if debug_opt st1 \<noteq> Off
                           then [''Handling answer from: '' @ sender] else [])\<rparr> \<and>
           (sender \<in> set (table_ids st) \<longrightarrow> findPeer st sender = Some p) \<and>
           (sender \<notin> set (table_ids st) \<longrightarrow>
              p = length (peers st) \<and>
              st1 = st\<lparr>peers := peers st @ [\<lparr>pid = sender, connection = length (conns st)\<rparr>],
                       peerConnections := peerConnections st @ [length (peers st)],
                       conns := conns st @
                         [\<lparr>bound = Some (length (peers st), Undefined), remoteStreams = [],
                           calls = (case localStream st of
                                      None \<Rightarrow> []
                                    | Some x \<Rightarrow> [AddStream x, CreateOffer (length (peers st))])\<rparr>],
                       console := console st @ [''Adding peer: '' @ sender]
                         @ (if debug_opt st \<noteq> Off
                            then [''Binding connection events for peer: '' @ sender] else [])
                         @ (case localStream st of
                              None \<Rightarrow> []
                            | Some x \<Rightarrow> (if debug_opt st \<noteq> Off
                                         then [''Stream added to '' @ sender,
                                               ''Creating offer for: '' @ sender]
                                         else []))\<rparr>)"
proof -
  obtain st1 r where g: "getPeer st sender = (st1, r)" by (cases "getPeer st sender")
  obtain p where p: "r = Some p" "p \<in> set (peerConnections st1)" "p < length (peers st1)"
      "pid (peers st1 ! p) = sender"
    using getPeer_returns [OF assms, of sender] g by auto
  have wf1: "well_formed st1" using getPeer_well_formed [OF assms, of sender] g by simp
  have h: "connection (peers st1 ! p) < length (conns st1)"
    using well_formed_conn [OF wf1 p(3)] .
  define st' where "st' = record_call (connection (peers st1 ! p))
                 (SetRemoteDescription answer (ThenPeerConnected p))
                 (console_log (debug_opt st1 \<noteq> Off)
                    (''Handling answer from: '' @ pid (peers st1 ! p)) st1)"
  have eq: "handleAnswer st sender answer = Inr st'"
    using g p(1) by (simp add: handleAnswer_def st'_def)
  have f: "peers st' = peers st1" "peerConnections st' = peerConnections st1"
      "emitted st' = emitted st1" "sent st' = sent st1"
    by (simp_all add: st'_def)
  have c: "calls (conns st' ! connection (peers st1 ! p))
             = calls (conns st1 ! connection (peers st1 ! p))
               @ [SetRemoteDescription answer (ThenPeerConnected p)]"
    using h by (simp add: st'_def record_call_conn)
  have full: "st' = st1\<lparr>conns := (conns st1)[connection (peers st1 ! p) :=
                          (conns st1 ! connection (peers st1 ! p))
                            \<lparr>calls := calls (conns st1 ! connection (peers st1 ! p))
                                       @ [SetRemoteDescription answer (ThenPeerConnected p)]\<rparr>],
                      console := console st1
                        @ (if debug_opt st1 \<noteq> Off
                           then [''Handling answer from: '' @ sender] else [])\<rparr>"
    using p(4) by (cases "debug_opt st1 = Off") (simp_all add: st'_def record_call_def console_log_def)
  have e1: "emitted st1 = emitted st"
  proof (cases "sender \<in> set (table_ids st)")
    case True
    then show ?thesis using getPeer_known [OF True] g by auto
  next
    case False
    then have "st1 = fst (addPeer st sender Undefined)" using g by (rule getPeer_fresh_fst)
    then show ?thesis by simp
  qed
  have k: "sender \<in> set (table_ids st) \<longrightarrow> st1 = st \<and> findPeer st sender = Some p"
    using getPeer_known [of sender st] g p(1) by auto
  have u: "sender \<notin> set (table_ids st) \<longrightarrow>
              p = length (peers st) \<and>
              st1 = st\<lparr>peers := peers st @ [\<lparr>pid = sender, connection = length (conns st)\<rparr>],
                       peerConnections := peerConnections st @ [length (peers st)],
                       conns := conns st @
                         [\<lparr>bound = Some (length (peers st), Undefined), remoteStreams = [],
                           calls = (case localStream st of
                                      None \<Rightarrow> []
                                    | Some x \<Rightarrow> [AddStream x, CreateOffer (length (peers st))])\<rparr>],
                       console := console st @ [''Adding peer: '' @ sender]
                         @ (if debug_opt st \<noteq> Off
                            then [''Binding connection events for peer: '' @ sender] else [])
                         @ (case localStream st of
                              None \<Rightarrow> []
                            | Some x \<Rightarrow> (if debug_opt st \<noteq> Off
                                         then [''Stream added to '' @ sender,
                                               ''Creating offer for: '' @ sender]
                                         else []))\<rparr>"
  proof
    assume fresh: "sender \<notin> set (table_ids st)"
    have a: "addPeer st sender Undefined = (st1, Some p)"
      using getPeer_fresh [OF fresh] g p(1) by simp
    have "p = length (peers st)" using addPeer_fresh_snd [OF fresh, of Undefined] a by simp
    moreover have "st1 = fst (addPeer st sender Undefined)" using a by simp
    ultimately show "p = length (peers st) \<and>
              st1 = st\<lparr>peers := peers st @ [\<lparr>pid = sender, connection = length (conns st)\<rparr>],
                       peerConnections := peerConnections st @ [length (peers st)],
                       conns := conns st @
                         [\<lparr>bound = Some (length (peers st), Undefined), remoteStreams = [],
                           calls = (case localStream st of
                                      None \<Rightarrow> []
                                    | Some x \<Rightarrow> [AddStream x, CreateOffer (length (peers st))])\<rparr>],
                       console := console st @ [''Adding peer: '' @ sender]
                         @ (if debug_opt st \<noteq> Off
                            then [''Binding connection events for peer: '' @ sender] else [])
                         @ (case localStream st of
                              None \<Rightarrow> []
                            | Some x \<Rightarrow> (if debug_opt st \<noteq> Off
                                         then [''Stream added to '' @ sender,
                                               ''Creating offer for: '' @ sender]
                                         else []))\<rparr>"
      using addPeer_fresh_state [OF fresh, of Undefined] by simp
  qed
  have cb: "emitted (handleAnswer_success st' p) = emitted st' @ [PeerconnectedEv sender]"
      "sent (handleAnswer_success st' p) = sent st' @ [PeerConnected sender]"
    using p(4) by (simp_all add: handleAnswer_success_def peerConnected_def f)
  have part1: "getPeer st sender = (st1, Some p) \<and>
           handleAnswer st sender answer = Inr st' \<and>
           p \<in> set (peerConnections st') \<and> pid (peers st' ! p) = sender \<and>
           peers st' = peers st1 \<and> peerConnections st' = peerConnections st1 \<and>
           calls (conns st' ! connection (peers st' ! p))
             = calls (conns st1 ! connection (peers st1 ! p))
               @ [SetRemoteDescription answer (ThenPeerConnected p)] \<and>
           emitted st' = emitted st \<and>
           (sender \<in> set (table_ids st) \<longrightarrow> st1 = st \<and> sent st' = sent st)"
    using g p eq f c e1 k by simp
  show ?thesis
    using part1 cb h full k u by blast
qed


theorem handleAnswer_always_sets_remote_description_witness:
  "well_formed
     \<lparr>debug_opt = Off,
      peers = [\<lparr>pid = ''p'', connection = 0\<rparr>, \<lparr>pid = ''q'', connection = 1\<rparr>],
      peerConnections = [0, 1],
      conns = [\<lparr>bound = Some (0, Undefined), remoteStreams = [], calls = []\<rparr>,
               \<lparr>bound = Some (1, JNum 1), remoteStreams = [''r''], calls = [CreateOffer 1]\<rparr>],
      localStream = Some ''cam'', emitted = [], sent = [], console = []\<rparr> \<and>
   ''p'' \<in> set (table_ids
     \<lparr>debug_opt = Off,
      peers = [\<lparr>pid = ''p'', connection = 0\<rparr>, \<lparr>pid = ''q'', connection = 1\<rparr>],
      peerConnections = [0, 1],
      conns = [\<lparr>bound = Some (0, Undefined), remoteStreams = [], calls = []\<rparr>,
               \<lparr>bound = Some (1, JNum 1), remoteStreams = [''r''], calls = [CreateOffer 1]\<rparr>],
      localStream = Some ''cam'', emitted = [], sent = [], console = []\<rparr>) \<and>
   handleAnswer
     \<lparr>debug_opt = Off,
      peers = [\<lparr>pid = ''p'', connection = 0\<rparr>, \<lparr>pid = ''q'', connection = 1\<rparr>],
      peerConnections = [0, 1],
      conns = [\<lparr>bound = Some (0, Undefined), remoteStreams = [], calls = []\<rparr>,
               \<lparr>bound = Some (1, JNum 1), remoteStreams = [''r''], calls = [CreateOffer 1]\<rparr>],
      localStream = Some ''cam'', emitted = [], sent = [], console = []\<rparr> ''p'' ''ans'' =
     Inr \<lparr>debug_opt = Off,
          peers = [\<lparr>pid = ''p'', connection = 0\<rparr>, \<lparr>pid = ''q'', connection = 1\<rparr>],
          peerConnections = [0, 1],
          conns = [\<lparr>bound = Some (0, Undefined), remoteStreams = [],
                    calls = [SetRemoteDescription ''ans'' (ThenPeerConnected 0)]\<rparr>,
                   \<lparr>bound = Some (1, JNum 1), remoteStreams = [''r''], calls = [CreateOffer 1]\<rparr>],
          localStream = Some ''cam'', emitted = [], sent = [], console = []\<rparr>"
proof -
  let ?S = "\<lparr>debug_opt = Off,
      peers = [\<lparr>pid = ''p'', connection = 0\<rparr>, \<lparr>pid = ''q'', connection = 1\<rparr>],
      peerConnections = [0, 1],
      conns = [\<lparr>bound = Some (0, Undefined), remoteStreams = [], calls = []\<rparr>,
               \<lparr>bound = Some (1, JNum 1), remoteStreams = [''r''], calls = [CreateOffer 1]\<rparr>],
      localStream = Some ''cam'', emitted = [], sent = [], console = []\<rparr>"
  have h: "well_formed ?S" by (simp add: well_formed_def)
  have m: "''p'' \<in> set (table_ids ?S)" by (simp add: table_ids_def)
  have f: "findPeer ?S ''p'' = Some 0" by (simp add: findPeer_def)
  obtain st1 p st' where r: "handleAnswer ?S ''p'' ''ans'' = Inr st'"
      "st' = st1\<lparr>conns := (conns st1)[connection (peers st1 ! p) :=
                          (conns st1 ! connection (peers st1 ! p))
                            \<lparr>calls := calls (conns st1 ! connection (peers st1 ! p))
                                       @ [SetRemoteDescription ''ans'' (ThenPeerConnected p)]\<rparr>],
                      console := console st1
                        @ (if debug_opt st1 \<noteq> Off
                           then [''Handling answer from: '' @ ''p''] else [])\<rparr>"
      "''p'' \<in> set (table_ids ?S) \<longrightarrow> st1 = ?S \<and> sent st' = sent ?S"
      "''p'' \<in> set (table_ids ?S) \<longrightarrow> findPeer ?S ''p'' = Some p"
    using handleAnswer_always_sets_remote_description [OF h, of "''p''" "''ans''"] by blast
  have "st1 = ?S" "p = 0" using r(3,4) m f by simp_all
  then have "st' = \<lparr>debug_opt = Off,
          peers = [\<lparr>pid = ''p'', connection = 0\<rparr>, \<lparr>pid = ''q'', connection = 1\<rparr>],
          peerConnections = [0, 1],
          conns = [\<lparr>bound = Some (0, Undefined), remoteStreams = [],
                    calls = [SetRemoteDescription ''ans'' (ThenPeerConnected 0)]\<rparr>,
                   \<lparr>bound = Some (1, JNum 1), remoteStreams = [''r''], calls = [CreateOffer 1]\<rparr>],
          localStream = Some ''cam'', emitted = [], sent = [], console = []\<rparr>"
    using r(2) by simp
  then show ?thesis using h m r(1) by simp
qed

text \<open>
  C1 as stated fails. A new client has sent no offer; an answer from \<open>p\<close> makes it
  create an entry for \<open>p\<close> and call \<^verbatim>\<open>setRemoteDescription\<close> with the answer. A second
  answer from \<open>p\<close> is handed to the same handle again.
\<close>

theorem answer_without_offer_counterexample:
  "sent (new_client Off) = [] \<and>
   handleAnswer (new_client Off) ''p'' ''ans'' =
     Inr \<lparr>debug_opt = Off, peers = [\<lparr>pid = ''p'', connection = 0\<rparr>], peerConnections = [0],
          conns = [\<lparr>bound = Some (0, Undefined), remoteStreams = [],
                    calls = [SetRemoteDescription ''ans'' (ThenPeerConnected 0)]\<rparr>],
          localStream = None, emitted = [], sent = [], console = [''Adding peer: p'']\<rparr> \<and>
   handleAnswer
     \<lparr>debug_opt = Off, peers = [\<lparr>pid = ''p'', connection = 0\<rparr>], peerConnections = [0],
      conns = [\<lparr>bound = Some (0, Undefined), remoteStreams = [],
                calls = [SetRemoteDescription ''ans'' (ThenPeerConnected 0)]\<rparr>],
      localStream = None, emitted = [], sent = [], console = [''Adding peer: p'']\<rparr>
     ''p'' ''again'' =
     Inr \<lparr>debug_opt = Off, peers = [\<lparr>pid = ''p'', connection = 0\<rparr>], peerConnections = [0],
          conns = [\<lparr>bound = Some (0, Undefined), remoteStreams = [],
                    calls = [SetRemoteDescription ''ans'' (ThenPeerConnected 0),
                             SetRemoteDescription ''again'' (ThenPeerConnected 0)]\<rparr>],
          localStream = None, emitted = [], sent = [], console = [''Adding peer: p'']\<rparr>"
  by (simp add: new_client_def handleAnswer_def getPeer_def findPeer_def addPeer_def hasPeer_def
        newPeerConnection_def bindConnectionEvents_def record_call_def console_log_def Let_def)

text \<open>
  C8, as the code has it. For an allocated entry, \<^verbatim>\<open>regenStream\<close> allocates a fresh handle
  and stores it in the entry's \<^verbatim>\<open>connection\<close> field. The entry keeps its address and its
  id, every other entry is untouched, the table is unchanged, and no older handle is
  modified. The handlers are bound on the new handle for the same entry, with a
  suppression value computed afresh from \<^verbatim>\<open>regenStream\<close>'s argument and the old handle's
  remote streams (\<^verbatim>\<open>suppress && getRemoteStreams().length\<close>), not carried over from
  the previous binding.
\<close>

theorem regenStream_replaces_handle:
  assumes "p < length (peers st)"
  shows "peers (regenStream st p s)
           = (peers st)[p := (peers st ! p)\<lparr>connection := length (conns st)\<rparr>] \<and>
         pid (peers (regenStream st p s) ! p) = pid (peers st ! p) \<and>
         connection (peers (regenStream st p s) ! p) = length (conns st) \<and>
         (\<forall>q. q \<noteq> p \<longrightarrow> peers (regenStream st p s) ! q = peers st ! q) \<and>
         peerConnections (regenStream st p s) = peerConnections st \<and>
         table_ids (regenStream st p s) = table_ids st \<and>
         take (length (conns st)) (conns (regenStream st p s)) = conns st \<and>
         length (conns (regenStream st p s)) = Suc (length (conns st)) \<and>
         bound (conns (regenStream st p s) ! length (conns st))
           = Some (p, js_and s (JNum (length (remoteStreams
                                        (conns st ! connection (peers st ! p))))))"
  using assms
  by (simp add: regenStream_peers regenStream_conns)

theorem regenStream_replaces_handle_witness:
  "(0::nat) < length (peers
      \<lparr>debug_opt = Off, peers = [\<lparr>pid = ''b'', connection = 0\<rparr>], peerConnections = [0],
       conns = [\<lparr>bound = Some (0, JNum 1), remoteStreams = [''r''], calls = []\<rparr>],
       localStream = None, emitted = [], sent = [], console = []\<rparr>) \<and>
   connection (peers (regenStream
      \<lparr>debug_opt = Off, peers = [\<lparr>pid = ''b'', connection = 0\<rparr>], peerConnections = [0],
       conns = [\<lparr>bound = Some (0, JNum 1), remoteStreams = [''r''], calls = []\<rparr>],
       localStream = None, emitted = [], sent = [], console = []\<rparr> 0 (JBool True)) ! 0) = 1 \<and>
   bound (conns (regenStream
      \<lparr>debug_opt = Off, peers = [\<lparr>pid = ''b'', connection = 0\<rparr>], peerConnections = [0],
       conns = [\<lparr>bound = Some (0, JNum 1), remoteStreams = [''r''], calls = []\<rparr>],
       localStream = None, emitted = [], sent = [], console = []\<rparr> 0 (JBool True)) ! 1)
     = Some (0, JNum 1)"
proof -
  have h: "(0::nat) < length (peers
      \<lparr>debug_opt = Off, peers = [\<lparr>pid = ''b'', connection = 0\<rparr>], peerConnections = [0],
       conns = [\<lparr>bound = Some (0, JNum 1), remoteStreams = [''r''], calls = []\<rparr>],
       localStream = None, emitted = [], sent = [], console = []\<rparr>)"
    by simp
  show ?thesis
    using h regenStream_replaces_handle [OF h, of "JBool True"]
    by (simp add: js_and_def)
qed

text \<open>
  C8 as stated fails on the suppression state. An entry whose handle is bound suppressed
  (as \<^verbatim>\<open>generateConnections\<close> leaves the second peer of a list) has, after
  \<^verbatim>\<open>regenStream(peer)\<close> as \<^verbatim>\<open>removeRemoteStream\<close> calls it, a new handle bound unsuppressed:
  the old handle swallowed a remote stream, the new one announces it.
\<close>

theorem regenStream_suppression_counterexample:
  "bound (conns
      \<lparr>debug_opt = Off, peers = [\<lparr>pid = ''b'', connection = 0\<rparr>], peerConnections = [0],
       conns = [\<lparr>bound = Some (0, JNum 1), remoteStreams = [], calls = []\<rparr>],
       localStream = None, emitted = [], sent = [], console = []\<rparr> ! 0) = Some (0, JNum 1) \<and>
   emitted (onaddstream
      \<lparr>debug_opt = Off, peers = [\<lparr>pid = ''b'', connection = 0\<rparr>], peerConnections = [0],
       conns = [\<lparr>bound = Some (0, JNum 1), remoteStreams = [], calls = []\<rparr>],
       localStream = None, emitted = [], sent = [], console = []\<rparr> 0 ''r'') = [] \<and>
   regenStream
      \<lparr>debug_opt = Off, peers = [\<lparr>pid = ''b'', connection = 0\<rparr>], peerConnections = [0],
       conns = [\<lparr>bound = Some (0, JNum 1), remoteStreams = [], calls = []\<rparr>],
       localStream = None, emitted = [], sent = [], console = []\<rparr> 0 Undefined =
      \<lparr>debug_opt = Off, peers = [\<lparr>pid = ''b'', connection = 1\<rparr>], peerConnections = [0],
       conns = [\<lparr>bound = Some (0, JNum 1), remoteStreams = [], calls = []\<rparr>,
                \<lparr>bound = Some (0, Undefined), remoteStreams = [], calls = []\<rparr>],
       localStream = None, emitted = [], sent = [], console = []\<rparr> \<and>
   emitted (onaddstream
      \<lparr>debug_opt = Off, peers = [\<lparr>pid = ''b'', connection = 1\<rparr>], peerConnections = [0],
       conns = [\<lparr>bound = Some (0, JNum 1), remoteStreams = [], calls = []\<rparr>,
                \<lparr>bound = Some (0, Undefined), remoteStreams = [], calls = []\<rparr>],
       localStream = None, emitted = [], sent = [], console = []\<rparr> 1 ''r'')
     = [RemoteStreamAdded ''r'' ''b'']"
  by (simp add: regenStream_def onaddstream_def newPeerConnection_def bindConnectionEvents_def
        console_log_def emit_def js_and_def Let_def)




section \<open>Facts about \<^verbatim>\<open>generateConnections\<close>\<close>









lemma addPeers_emitted [simp]: "emitted (addPeers st k ps) = emitted st"
  by (induction ps arbitrary: st k) simp_all

lemma console_log_observations [simp]:
  "well_formed (console_log b m st) = well_formed st"
  "table_ids (console_log b m st) = table_ids st"
  "findPeer (console_log b m st) i = findPeer st i"
  by (simp_all add: well_formed_def table_ids_def findPeer_def)

section \<open>The claim about the list message\<close>




end
